theory Spec2Isabelle
  imports Complex_Main "HOL-Library.Word" "HOL-Library.Sublist" "HOL-Library.AList"
begin

section \<open>JavaScript strings and values\<close>

text \<open>
  A JavaScript string is a sequence of 16-bit code units. String literals of the source are
  written \<open>js ''...''\<close>.
\<close>

type_synonym code_unit = "16 word"
type_synonym jsstring = "code_unit list"

definition js :: "string \<Rightarrow> jsstring" where
  "js s = map of_char s"

text \<open>
  Values of type \<open>any\<close>: what \<open>JSON.parse\<close> can produce, plus \<open>undefined\<close>. An object is
  the list of its own properties in insertion order. Numbers are the finite ones (JSON has no
  \<open>NaN\<close> and no infinity), each taken as the rational it denotes.
\<close>

datatype jsval =
    JUndefined
  | JNull
  | JBool bool
  | JNum rat
  | JStr jsstring
  | JArr "jsval list"
  | JObj "(jsstring \<times> jsval) list"

text \<open>A thrown value: an \<open>Error\<close> object with its message, or any other value.\<close>

datatype js_exn = Error jsstring | Thrown jsval

text \<open>The conversion to boolean of \<open>if (v)\<close>, \<open>v ? a : b\<close>, \<open>!v\<close> and \<open>v || w\<close>.\<close>

fun truthy :: "jsval \<Rightarrow> bool" where
  "truthy JUndefined = False"
| "truthy JNull = False"
| "truthy (JBool b) = b"
| "truthy (JNum n) = (n \<noteq> 0)"
| "truthy (JStr s) = (s \<noteq> [])"
| "truthy (JArr vs) = True"
| "truthy (JObj kvs) = True"

text \<open>
  \<open>WhiteSpace\<close> and \<open>LineTerminator\<close> of ECMAScript: the code units that \<open>String.prototype.trim\<close>
  strips and that \<open>\s\<close> matches.
\<close>

definition is_whitespace :: "code_unit \<Rightarrow> bool" where
  "is_whitespace c =
     (c \<in> set [0x09, 0x0A, 0x0B, 0x0C, 0x0D, 0x20, 0xA0, 0x1680,
               0x2028, 0x2029, 0x202F, 0x205F, 0x3000, 0xFEFF]
      \<or> (0x2000 \<le> c \<and> c \<le> 0x200A))"

text \<open>The character class \<open>['"]\<close>.\<close>

definition is_quote :: "code_unit \<Rightarrow> bool" where
  "is_quote c = (c = 0x27 \<or> c = 0x22)"

text \<open>The character \<open>-\<close>.\<close>

definition is_dash :: "code_unit \<Rightarrow> bool" where
  "is_dash c = (c = 0x2D)"

text \<open>
  The class \<open>[0-9a-f]\<close> under the flag \<open>i\<close>: canonicalisation maps no code unit outside
  ASCII to an ASCII letter, so the class is \<open>0-9\<close>, \<open>a-f\<close> and \<open>A-F\<close>.
\<close>

definition is_hex_digit :: "code_unit \<Rightarrow> bool" where
  "is_hex_digit c =
     ((0x30 \<le> c \<and> c \<le> 0x39) \<or> (0x61 \<le> c \<and> c \<le> 0x66) \<or> (0x41 \<le> c \<and> c \<le> 0x46))"

text \<open>\<open>s.trim()\<close>\<close>

definition trim :: "jsstring \<Rightarrow> jsstring" where
  "trim s = rev (dropWhile is_whitespace (rev (dropWhile is_whitespace s)))"

text \<open>\<open>s.replace(/C/g, '')\<close> for a one-character pattern \<open>C\<close>.\<close>

definition remove_all :: "(code_unit \<Rightarrow> bool) \<Rightarrow> jsstring \<Rightarrow> jsstring" where
  "remove_all C s = filter (\<lambda>c. \<not> C c) s"

text \<open>\<open>s.slice(b, e)\<close> and \<open>s.slice(b)\<close> for indices that are not negative.\<close>

definition slice :: "nat \<Rightarrow> nat \<Rightarrow> jsstring \<Rightarrow> jsstring" where
  "slice b e s = take (e - b) (drop b s)"

definition slice_from :: "nat \<Rightarrow> jsstring \<Rightarrow> jsstring" where
  "slice_from b s = drop b s"

text \<open>\<open>/^[0-9a-f]{32}$/i.test(s)\<close>\<close>

definition test_hex32 :: "jsstring \<Rightarrow> bool" where
  "test_hex32 s = (length s = 32 \<and> list_all is_hex_digit s)"

section \<open>The Notion client\<close>

subsection \<open>Identifier validation\<close>

text \<open>
  \<open>NotionClient.validateUUID\<close>. The parameter \<open>uuid\<close> is reassigned after the emptiness
  check; \<open>uuid0\<close> is the argument, \<open>uuid\<close> the reassigned variable.
\<close>

definition validateUUID :: "jsstring \<Rightarrow> js_exn + jsstring" where
  "validateUUID uuid0 =
     (if uuid0 = [] then Inl (Error (js ''Notion ID cannot be empty''))
      else
        let uuid = remove_all is_whitespace (remove_all is_quote (trim uuid0));
            cleanUuid = remove_all is_dash uuid
        in if \<not> test_hex32 cleanUuid
           then Inl (Error (js ''Invalid Notion ID format: '' @ uuid
                            @ js ''. Expected a 32-character hexadecimal string.''))
           else Inr (slice 0 8 cleanUuid @ js ''-'' @ slice 8 12 cleanUuid @ js ''-''
                     @ slice 12 16 cleanUuid @ js ''-'' @ slice 16 20 cleanUuid @ js ''-''
                     @ slice_from 20 cleanUuid))"

subsection \<open>The platform and the network\<close>

text \<open>The argument of one \<open>fetch\<close> call: the URL and the \<open>RequestInit\<close> options.\<close>

record api_request =
  url :: jsstring
  http_method :: jsstring
  headers :: "(jsstring \<times> jsstring) list"
  body :: "jsstring option"

text \<open>
  What the code reads of a \<open>Response\<close>: \<open>status\<close>, \<open>ok\<close> and the outcome of \<open>json()\<close>, which
  throws when the payload is not JSON.
\<close>

record http_response =
  status :: nat
  ok :: bool
  json :: "js_exn + jsval"

datatype fetch_outcome = Rejected js_exn | Response http_response

text \<open>
  The built-ins the code calls, taken as parameters: \<open>fetch\<close>, \<open>JSON.stringify(v)\<close>,
  \<open>JSON.stringify(v, null, 2)\<close>, the conversion to string of a template literal and of
  \<open>String(v)\<close> and \<open>n.toString()\<close>, the serialisation of a \<open>URLSearchParams\<close>, and the message
  of the \<open>TypeError\<close> raised by a property read on \<open>undefined\<close> or \<open>null\<close>.
\<close>

record js_env =
  fetch :: "api_request \<Rightarrow> fetch_outcome"
  JSON_stringify :: "jsval \<Rightarrow> jsstring"
  JSON_stringify_indent2 :: "jsval \<Rightarrow> jsstring"
  ToString :: "jsval \<Rightarrow> jsstring"
  URLSearchParams_toString :: "(jsstring \<times> jsstring) list \<Rightarrow> jsstring"
  TypeError_message :: "jsval \<Rightarrow> jsstring \<Rightarrow> jsstring"

text \<open>The conversion to string; a string converts to itself.\<close>

definition String_of :: "js_env \<Rightarrow> jsval \<Rightarrow> jsstring" where
  "String_of env v = (case v of JStr s \<Rightarrow> s | _ \<Rightarrow> ToString env v)"

text \<open>
  The value of the property \<open>k\<close> of a value that is neither \<open>undefined\<close> nor \<open>null\<close>, for
  a name \<open>k\<close> that no prototype defines other than \<open>length\<close> of arrays and strings.
\<close>

fun prop_of :: "jsval \<Rightarrow> jsstring \<Rightarrow> jsval" where
  "prop_of (JObj kvs) k = (case map_of kvs k of Some x \<Rightarrow> x | None \<Rightarrow> JUndefined)"
| "prop_of (JArr vs) k = (if k = js ''length'' then JNum (of_nat (length vs)) else JUndefined)"
| "prop_of (JStr s) k = (if k = js ''length'' then JNum (of_nat (length s)) else JUndefined)"
| "prop_of v k = JUndefined"

text \<open>The property read \<open>v.k\<close>, which throws a \<open>TypeError\<close> on \<open>undefined\<close> and \<open>null\<close>.\<close>

definition get_prop :: "js_env \<Rightarrow> jsval \<Rightarrow> jsstring \<Rightarrow> js_exn + jsval" where
  "get_prop env v k =
     (if v = JUndefined \<or> v = JNull then Inl (Error (TypeError_message env v k))
      else Inr (prop_of v k))"

subsection \<open>Requests\<close>

record NotionClient =
  apiKey :: jsstring
  baseUrl :: jsstring
  apiVersion :: jsstring

text \<open>The constructor with its default base URL and API version.\<close>

definition new_NotionClient :: "jsstring \<Rightarrow> NotionClient" where
  "new_NotionClient key =
     \<lparr>apiKey = key, baseUrl = js ''https://api.notion.com'', apiVersion = js ''2022-06-28''\<rparr>"

text \<open>The message of the error that \<open>request\<close> builds for a response that is not \<open>ok\<close>.\<close>

definition api_error_message ::
  "js_env \<Rightarrow> nat \<Rightarrow> jsval \<Rightarrow> jsstring \<Rightarrow> js_exn + jsstring" where
  "api_error_message env st data endpoint =
     (case get_prop env data (js ''message'') of
        Inl e \<Rightarrow> Inl e
      | Inr msg \<Rightarrow>
          (case get_prop env data (js ''request_id'') of
             Inl e \<Rightarrow> Inl e
           | Inr rid \<Rightarrow>
               Inr (js ''Notion API error: '' @ String_of env (JNum (of_nat st)) @ js '' - ''
                    @ String_of env (if truthy msg then msg else JStr (JSON_stringify env data))
                    @ [0x0A] @ js ''Endpoint: '' @ endpoint
                    @ [0x0A] @ js ''Request ID: ''
                    @ String_of env (if truthy rid then rid else JStr (js ''unknown'')))))"

text \<open>
  \<open>NotionClient.request\<close>. The result is the value the promise resolves to (\<open>Inr\<close>) or
  rejects with (\<open>Inl\<close>), paired with the \<open>fetch\<close> calls made, in order. The diagnostic written
  with \<open>console.error\<close> is not part of the model.
\<close>

definition request ::
  "js_env \<Rightarrow> NotionClient \<Rightarrow> jsstring \<Rightarrow> jsstring \<Rightarrow> jsval \<Rightarrow> (js_exn + jsval) \<times> api_request list"
  where
  "request env c endpoint method body_arg =
     (let req = \<lparr>url = baseUrl c @ endpoint,
                 http_method = method,
                 headers = [(js ''Authorization'', js ''Bearer '' @ apiKey c),
                            (js ''Content-Type'', js ''application/json''),
                            (js ''Notion-Version'', apiVersion c)],
                 body = (if truthy body_arg then Some (JSON_stringify env body_arg) else None)\<rparr>;
          attempt =
            (case fetch env req of
               Rejected e \<Rightarrow> Inl e
             | Response r \<Rightarrow>
                 (case json r of
                    Inl e \<Rightarrow> Inl e
                  | Inr data \<Rightarrow>
                      if \<not> ok r then
                        (case api_error_message env (status r) data endpoint of
                           Inl e \<Rightarrow> Inl e
                         | Inr m \<Rightarrow> Inl (Error m))
                      else Inr data))
      in (case attempt of
            Inl (Error m) \<Rightarrow> Inl (Error m)
          | Inl (Thrown v) \<Rightarrow>
              Inl (Error (js ''Unexpected error in Notion API request: '' @ String_of env v))
          | Inr data \<Rightarrow> Inr data,
          [req]))"

text \<open>
  The assignment \<open>o[k] = v\<close> on an object: an existing property keeps its place, a new one
  is added last. It is only reached on objects.
\<close>

fun set_prop :: "jsval \<Rightarrow> jsstring \<Rightarrow> jsval \<Rightarrow> jsval" where
  "set_prop (JObj kvs) k v = JObj (AList.update k v kvs)"
| "set_prop x k v = x"

text \<open>
  \<open>validateUUID\<close> on an argument of type \<open>any\<close> (a property of \<open>params.parent\<close>): a falsy
  value fails the first check, and a truthy value that is not a string has no \<open>trim\<close>.
\<close>

definition validateUUID_any :: "js_env \<Rightarrow> jsval \<Rightarrow> js_exn + jsstring" where
  "validateUUID_any env v =
     (case v of
        JStr s \<Rightarrow> validateUUID s
      | _ \<Rightarrow> if \<not> truthy v then Inl (Error (js ''Notion ID cannot be empty''))
             else Inl (Error (TypeError_message env v (js ''trim''))))"

subsection \<open>Operations\<close>

text \<open>\<open>getPage(pageId)\<close>\<close>

definition getPage ::
  "js_env \<Rightarrow> NotionClient \<Rightarrow> jsstring \<Rightarrow> (js_exn + jsval) \<times> api_request list" where
  "getPage env c pageId =
     (case validateUUID pageId of
        Inl e \<Rightarrow> (Inl e, [])
      | Inr pid \<Rightarrow> request env c (js ''/v1/pages/'' @ pid) (js ''GET'') JUndefined)"

text \<open>\<open>getMe()\<close>\<close>

definition getMe :: "js_env \<Rightarrow> NotionClient \<Rightarrow> (js_exn + jsval) \<times> api_request list" where
  "getMe env c = request env c (js ''/v1/users/me'') (js ''GET'') JUndefined"

text \<open>
  \<open>listUsers(startCursor?, pageSize = 100)\<close>. A \<open>URLSearchParams\<close> is the list of its
  pairs; \<open>set\<close> on a name replaces the pair or adds it last.
\<close>

definition listUsers ::
  "js_env \<Rightarrow> NotionClient \<Rightarrow> jsval \<Rightarrow> jsval \<Rightarrow> (js_exn + jsval) \<times> api_request list" where
  "listUsers env c startCursor pageSize_arg =
     (let pageSize = (if pageSize_arg = JUndefined then JNum 100 else pageSize_arg);
          query0 = [];
          query1 = (if truthy startCursor
                    then AList.update (js ''start_cursor'') (String_of env startCursor) query0
                    else query0);
          query2 = (if truthy pageSize
                    then AList.update (js ''page_size'') (String_of env pageSize) query1
                    else query1);
          queryString = (if URLSearchParams_toString env query2 \<noteq> []
                         then js ''?'' @ URLSearchParams_toString env query2 else [])
      in request env c (js ''/v1/users'' @ queryString) (js ''GET'') JUndefined)"

text \<open>\<open>getUser(userId)\<close>\<close>

definition getUser ::
  "js_env \<Rightarrow> NotionClient \<Rightarrow> jsstring \<Rightarrow> (js_exn + jsval) \<times> api_request list" where
  "getUser env c userId = request env c (js ''/v1/users/'' @ userId) (js ''GET'') JUndefined"

text \<open>\<open>search(params)\<close>\<close>

definition search ::
  "js_env \<Rightarrow> NotionClient \<Rightarrow> jsval \<Rightarrow> (js_exn + jsval) \<times> api_request list" where
  "search env c params = request env c (js ''/v1/search'') (js ''POST'') params"

text \<open>
  \<open>createPage(params)\<close>. The validated identifier is written back into \<open>params.parent\<close>
  before the request.
\<close>

definition createPage ::
  "js_env \<Rightarrow> NotionClient \<Rightarrow> jsval \<Rightarrow> (js_exn + jsval) \<times> api_request list" where
  "createPage env c params =
     (case get_prop env params (js ''parent'') of
        Inl e \<Rightarrow> (Inl e, [])
      | Inr parent \<Rightarrow>
          (case get_prop env parent (js ''type'') of
             Inl e \<Rightarrow> (Inl e, [])
           | Inr ty \<Rightarrow>
               if ty = JStr (js ''page_id'') then
                 (case get_prop env parent (js ''page_id'') of
                    Inl e \<Rightarrow> (Inl e, [])
                  | Inr v \<Rightarrow>
                      (case validateUUID_any env v of
                         Inl e \<Rightarrow> (Inl e, [])
                       | Inr u \<Rightarrow>
                           request env c (js ''/v1/pages'') (js ''POST'')
                             (set_prop params (js ''parent'')
                                (set_prop parent (js ''page_id'') (JStr u)))))
               else if ty = JStr (js ''database_id'') then
                 (case get_prop env parent (js ''database_id'') of
                    Inl e \<Rightarrow> (Inl e, [])
                  | Inr v \<Rightarrow>
                      (case validateUUID_any env v of
                         Inl e \<Rightarrow> (Inl e, [])
                       | Inr u \<Rightarrow>
                           request env c (js ''/v1/pages'') (js ''POST'')
                             (set_prop params (js ''parent'')
                                (set_prop parent (js ''database_id'') (JStr u)))))
               else request env c (js ''/v1/pages'') (js ''POST'') params))"

text \<open>\<open>updatePage(pageId, params)\<close>\<close>

definition updatePage ::
  "js_env \<Rightarrow> NotionClient \<Rightarrow> jsstring \<Rightarrow> jsval \<Rightarrow> (js_exn + jsval) \<times> api_request list" where
  "updatePage env c pageId params =
     (case validateUUID pageId of
        Inl e \<Rightarrow> (Inl e, [])
      | Inr pid \<Rightarrow> request env c (js ''/v1/pages/'' @ pid) (js ''PATCH'') params)"

text \<open>\<open>getDatabase(databaseId)\<close>\<close>

definition getDatabase ::
  "js_env \<Rightarrow> NotionClient \<Rightarrow> jsstring \<Rightarrow> (js_exn + jsval) \<times> api_request list" where
  "getDatabase env c databaseId =
     request env c (js ''/v1/databases/'' @ databaseId) (js ''GET'') JUndefined"

text \<open>\<open>createDatabase(params)\<close>\<close>

definition createDatabase ::
  "js_env \<Rightarrow> NotionClient \<Rightarrow> jsval \<Rightarrow> (js_exn + jsval) \<times> api_request list" where
  "createDatabase env c params = request env c (js ''/v1/databases'') (js ''POST'') params"

text \<open>\<open>queryDatabase(databaseId, params?)\<close>\<close>

definition queryDatabase ::
  "js_env \<Rightarrow> NotionClient \<Rightarrow> jsstring \<Rightarrow> jsval \<Rightarrow> (js_exn + jsval) \<times> api_request list" where
  "queryDatabase env c databaseId params =
     request env c (js ''/v1/databases/'' @ databaseId @ js ''/query'') (js ''POST'') params"

text \<open>\<open>getBlock(blockId)\<close>\<close>

definition getBlock ::
  "js_env \<Rightarrow> NotionClient \<Rightarrow> jsstring \<Rightarrow> (js_exn + jsval) \<times> api_request list" where
  "getBlock env c blockId = request env c (js ''/v1/blocks/'' @ blockId) (js ''GET'') JUndefined"

text \<open>\<open>getBlockChildren(blockId, params?)\<close>\<close>

definition getBlockChildren ::
  "js_env \<Rightarrow> NotionClient \<Rightarrow> jsstring \<Rightarrow> jsval \<Rightarrow> (js_exn + jsval) \<times> api_request list" where
  "getBlockChildren env c blockId params =
     (case validateUUID blockId of
        Inl e \<Rightarrow> (Inl e, [])
      | Inr bid \<Rightarrow>
          request env c (js ''/v1/blocks/'' @ bid @ js ''/children'') (js ''GET'') params)"

text \<open>\<open>appendBlockChildren(blockId, children)\<close>\<close>

definition appendBlockChildren ::
  "js_env \<Rightarrow> NotionClient \<Rightarrow> jsstring \<Rightarrow> jsval \<Rightarrow> (js_exn + jsval) \<times> api_request list" where
  "appendBlockChildren env c blockId children =
     request env c (js ''/v1/blocks/'' @ blockId @ js ''/children'') (js ''PATCH'')
       (JObj [(js ''children'', children)])"

text \<open>\<open>getComments(blockId, startCursor?, pageSize = 100)\<close>\<close>

definition getComments ::
  "js_env \<Rightarrow> NotionClient \<Rightarrow> jsstring \<Rightarrow> jsval \<Rightarrow> jsval
     \<Rightarrow> (js_exn + jsval) \<times> api_request list" where
  "getComments env c blockId startCursor pageSize_arg =
     (let pageSize = (if pageSize_arg = JUndefined then JNum 100 else pageSize_arg);
          query0 = AList.update (js ''block_id'') blockId [];
          query1 = (if truthy startCursor
                    then AList.update (js ''start_cursor'') (String_of env startCursor) query0
                    else query0);
          query2 = (if truthy pageSize
                    then AList.update (js ''page_size'') (String_of env pageSize) query1
                    else query1);
          queryString = (if URLSearchParams_toString env query2 \<noteq> []
                         then js ''?'' @ URLSearchParams_toString env query2 else [])
      in request env c (js ''/v1/comments'' @ queryString) (js ''GET'') JUndefined)"

text \<open>\<open>createComment(params)\<close>\<close>

definition createComment ::
  "js_env \<Rightarrow> NotionClient \<Rightarrow> jsval \<Rightarrow> (js_exn + jsval) \<times> api_request list" where
  "createComment env c params = request env c (js ''/v1/comments'') (js ''POST'') params"

section \<open>The tools\<close>

subsection \<open>Arguments and results\<close>

text \<open>The enumerations of the parameter schemas, each with the string it stands for.\<close>

datatype parent_kind = Page_id | Database_id

fun parent_kind_str :: "parent_kind \<Rightarrow> jsstring" where
  "parent_kind_str Page_id = js ''page_id''"
| "parent_kind_str Database_id = js ''database_id''"

datatype object_kind = Page | Database

fun object_kind_str :: "object_kind \<Rightarrow> jsstring" where
  "object_kind_str Page = js ''page''"
| "object_kind_str Database = js ''database''"

datatype sort_field = Last_edited_time

fun sort_field_str :: "sort_field \<Rightarrow> jsstring" where
  "sort_field_str Last_edited_time = js ''last_edited_time''"

datatype sort_direction = Ascending | Descending

fun sort_direction_str :: "sort_direction \<Rightarrow> jsstring" where
  "sort_direction_str Ascending = js ''ascending''"
| "sort_direction_str Descending = js ''descending''"

text \<open>An optional argument as a value: \<open>undefined\<close> when it is absent.\<close>

definition optional :: "('a \<Rightarrow> jsval) \<Rightarrow> 'a option \<Rightarrow> jsval" where
  "optional f x = (case x of None \<Rightarrow> JUndefined | Some a \<Rightarrow> f a)"

text \<open>One content item \<open>{ type, text }\<close> and the tool result \<open>{ content }\<close>.\<close>

record content_item =
  item_type :: jsstring
  item_text :: jsstring

record tool_result =
  content :: "content_item list"

text \<open>\<open>{ content: [{ type: 'text', text: t }] }\<close>\<close>

definition text_result :: "jsstring \<Rightarrow> tool_result" where
  "text_result t = \<lparr>content = [\<lparr>item_type = js ''text'', item_text = t\<rparr>]\<rparr>"

text \<open>\<open>error instanceof Error ? error.message : String(error)\<close>\<close>

definition error_text :: "js_env \<Rightarrow> js_exn \<Rightarrow> jsstring" where
  "error_text env error = (case error of Error m \<Rightarrow> m | Thrown v \<Rightarrow> String_of env v)"

text \<open>
  The shape shared by the handlers: the \<open>try\<close> block ends in a result or throws, and the
  \<open>catch\<close> clause returns the text \<open>label\<close> followed by the text of the error.
\<close>

type_synonym handler_outcome = "(js_exn + tool_result) \<times> api_request list"

definition try_catch :: "js_env \<Rightarrow> jsstring \<Rightarrow> handler_outcome \<Rightarrow> handler_outcome" where
  "try_catch env label attempt =
     (case attempt of
        (Inr r, calls) \<Rightarrow> (Inr r, calls)
      | (Inl error, calls) \<Rightarrow> (Inr (text_result (label @ error_text env error)), calls))"

text \<open>
  The end of most \<open>try\<close> blocks: await the client and return its result serialised with
  \<open>JSON.stringify(result, null, 2)\<close>.
\<close>

definition return_json :: "js_env \<Rightarrow> (js_exn + jsval) \<times> api_request list \<Rightarrow> handler_outcome" where
  "return_json env awaited =
     (case awaited of
        (Inr v, calls) \<Rightarrow> (Inr (text_result (JSON_stringify_indent2 env v)), calls)
      | (Inl e, calls) \<Rightarrow> (Inl e, calls))"

text \<open>\<open>[{ type: 'text', text: { content: t } }]\<close>\<close>

definition rich_text :: "jsstring \<Rightarrow> jsval" where
  "rich_text t =
     JArr [JObj [(js ''type'', JStr (js ''text'')),
                 (js ''text'', JObj [(js ''content'', JStr t)])]]"

text \<open>The paragraph block that wraps a plain text.\<close>

definition paragraph_block :: "jsstring \<Rightarrow> jsval" where
  "paragraph_block t =
     JObj [(js ''object'', JStr (js ''block'')),
           (js ''type'', JStr (js ''paragraph'')),
           (js ''paragraph'', JObj [(js ''rich_text'', rich_text t)])]"

subsection \<open>Handlers\<close>

text \<open>
  Each handler is given as its \<open>try\<close> block and as the whole function. The arguments are
  those the parameter schema lets through: an optional one is an \<open>option\<close>.
\<close>

text \<open>\<open>get-current-user\<close>\<close>

definition get_current_user_try :: "js_env \<Rightarrow> NotionClient \<Rightarrow> handler_outcome" where
  "get_current_user_try env c = return_json env (getMe env c)"

definition get_current_user :: "js_env \<Rightarrow> NotionClient \<Rightarrow> handler_outcome" where
  "get_current_user env c =
     try_catch env (js ''Error fetching current user: '') (get_current_user_try env c)"

text \<open>\<open>list-users\<close>\<close>

definition list_users_try ::
  "js_env \<Rightarrow> NotionClient \<Rightarrow> jsstring option \<Rightarrow> rat option \<Rightarrow> handler_outcome" where
  "list_users_try env c startCursor pageSize =
     return_json env (listUsers env c (optional JStr startCursor) (optional JNum pageSize))"

definition list_users ::
  "js_env \<Rightarrow> NotionClient \<Rightarrow> jsstring option \<Rightarrow> rat option \<Rightarrow> handler_outcome" where
  "list_users env c startCursor pageSize =
     try_catch env (js ''Error listing users: '') (list_users_try env c startCursor pageSize)"

text \<open>
  \<open>search\<close>: the object \<open>searchParams\<close> as it is when the client is called. A value of an
  enumeration is a string that is not empty, so \<open>if (filter)\<close>, \<open>if (sort)\<close> and
  \<open>sortDirection || 'descending'\<close> test whether the argument is present.
\<close>

definition search_params ::
  "jsstring option \<Rightarrow> object_kind option \<Rightarrow> sort_field option \<Rightarrow> sort_direction option
     \<Rightarrow> rat option \<Rightarrow> jsstring option \<Rightarrow> jsval" where
  "search_params query filter_arg sort_arg sortDirection pageSize startCursor =
     (let searchParams0 = JObj [];
          searchParams1 = (if truthy (optional JStr query)
                           then set_prop searchParams0 (js ''query'') (optional JStr query)
                           else searchParams0);
          searchParams2 = (if truthy (optional JStr startCursor)
                           then set_prop searchParams1 (js ''start_cursor'')
                                  (optional JStr startCursor)
                           else searchParams1);
          searchParams3 = (if truthy (optional JNum pageSize)
                           then set_prop searchParams2 (js ''page_size'') (optional JNum pageSize)
                           else searchParams2);
          searchParams4 = (case filter_arg of
                             Some f \<Rightarrow>
                               set_prop searchParams3 (js ''filter'')
                                 (JObj [(js ''property'', JStr (js ''object'')),
                                        (js ''value'', JStr (object_kind_str f))])
                           | None \<Rightarrow> searchParams3);
          searchParams5 = (case sort_arg of
                             Some t \<Rightarrow>
                               set_prop searchParams4 (js ''sort'')
                                 (JObj [(js ''timestamp'', JStr (sort_field_str t)),
                                        (js ''direction'',
                                         (case sortDirection of
                                            Some d \<Rightarrow> JStr (sort_direction_str d)
                                          | None \<Rightarrow> JStr (js ''descending'')))])
                           | None \<Rightarrow> searchParams4)
      in searchParams5)"

definition search_try ::
  "js_env \<Rightarrow> NotionClient \<Rightarrow> jsstring option \<Rightarrow> object_kind option \<Rightarrow> sort_field option
     \<Rightarrow> sort_direction option \<Rightarrow> rat option \<Rightarrow> jsstring option \<Rightarrow> handler_outcome" where
  "search_try env c query filter_arg sort_arg sortDirection pageSize startCursor =
     return_json env
       (search env c (search_params query filter_arg sort_arg sortDirection pageSize startCursor))"

definition search_tool ::
  "js_env \<Rightarrow> NotionClient \<Rightarrow> jsstring option \<Rightarrow> object_kind option \<Rightarrow> sort_field option
     \<Rightarrow> sort_direction option \<Rightarrow> rat option \<Rightarrow> jsstring option \<Rightarrow> handler_outcome" where
  "search_tool env c query filter_arg sort_arg sortDirection pageSize startCursor =
     try_catch env (js ''Error searching Notion: '')
       (search_try env c query filter_arg sort_arg sortDirection pageSize startCursor)"

text \<open>\<open>get-page\<close>\<close>

definition get_page_try :: "js_env \<Rightarrow> NotionClient \<Rightarrow> jsstring \<Rightarrow> handler_outcome" where
  "get_page_try env c pageId = return_json env (getPage env c pageId)"

definition get_page :: "js_env \<Rightarrow> NotionClient \<Rightarrow> jsstring \<Rightarrow> handler_outcome" where
  "get_page env c pageId =
     try_catch env (js ''Error retrieving page: '') (get_page_try env c pageId)"

text \<open>\<open>create-page\<close>: the object \<open>pageProperties\<close> as it is when the client is called.\<close>

definition create_page_properties ::
  "parent_kind \<Rightarrow> jsstring \<Rightarrow> (jsstring \<times> jsval) list option \<Rightarrow> jsval" where
  "create_page_properties parentType title properties_arg =
     (if parentType = Database_id then
        (let pageProperties = (if truthy (optional JObj properties_arg)
                               then optional JObj properties_arg else JObj [])
         in if truthy (JStr title) \<and> \<not> truthy (prop_of pageProperties (js ''Name''))
            then set_prop pageProperties (js ''Name'') (JObj [(js ''title'', rich_text title)])
            else pageProperties)
      else JObj [(js ''title'', rich_text title)])"

text \<open>\<open>create-page\<close>: the argument of \<open>notionClient.createPage\<close>.\<close>

definition create_page_params ::
  "parent_kind \<Rightarrow> jsstring \<Rightarrow> jsstring \<Rightarrow> (jsstring \<times> jsval) list option \<Rightarrow> jsstring option
     \<Rightarrow> jsval" where
  "create_page_params parentType parentId title properties_arg content_arg =
     (let pageProperties = create_page_properties parentType title properties_arg;
          children = (case content_arg of
                        Some ct \<Rightarrow>
                          if truthy (JStr ct) then JArr [paragraph_block ct] else JUndefined
                      | None \<Rightarrow> JUndefined)
      in JObj [(js ''parent'', JObj [(js ''type'', JStr (parent_kind_str parentType)),
                                     (parent_kind_str parentType, JStr parentId)]),
               (js ''properties'', pageProperties),
               (js ''children'', children)])"

definition create_page_try ::
  "js_env \<Rightarrow> NotionClient \<Rightarrow> parent_kind \<Rightarrow> jsstring \<Rightarrow> jsstring
     \<Rightarrow> (jsstring \<times> jsval) list option \<Rightarrow> jsstring option \<Rightarrow> handler_outcome" where
  "create_page_try env c parentType parentId title properties_arg content_arg =
     return_json env
       (createPage env c
          (create_page_params parentType parentId title properties_arg content_arg))"

definition create_page ::
  "js_env \<Rightarrow> NotionClient \<Rightarrow> parent_kind \<Rightarrow> jsstring \<Rightarrow> jsstring
     \<Rightarrow> (jsstring \<times> jsval) list option \<Rightarrow> jsstring option \<Rightarrow> handler_outcome" where
  "create_page env c parentType parentId title properties_arg content_arg =
     try_catch env (js ''Error creating page: '')
       (create_page_try env c parentType parentId title properties_arg content_arg)"

text \<open>\<open>get-database\<close>\<close>

definition get_database_try :: "js_env \<Rightarrow> NotionClient \<Rightarrow> jsstring \<Rightarrow> handler_outcome" where
  "get_database_try env c databaseId = return_json env (getDatabase env c databaseId)"

definition get_database :: "js_env \<Rightarrow> NotionClient \<Rightarrow> jsstring \<Rightarrow> handler_outcome" where
  "get_database env c databaseId =
     try_catch env (js ''Error retrieving database: '') (get_database_try env c databaseId)"

text \<open>\<open>create-database\<close>\<close>

definition create_database_try ::
  "js_env \<Rightarrow> NotionClient \<Rightarrow> jsstring \<Rightarrow> jsstring \<Rightarrow> (jsstring \<times> jsval) list option
     \<Rightarrow> handler_outcome" where
  "create_database_try env c parentId title properties_arg =
     (let dbProperties = (if truthy (optional JObj properties_arg)
                          then optional JObj properties_arg
                          else JObj [(js ''Name'', JObj [(js ''title'', JObj [])])])
      in return_json env
           (createDatabase env c
              (JObj [(js ''parent'', JObj [(js ''type'', JStr (js ''page_id'')),
                                           (js ''page_id'', JStr parentId)]),
                     (js ''title'', rich_text title),
                     (js ''properties'', dbProperties)])))"

definition create_database ::
  "js_env \<Rightarrow> NotionClient \<Rightarrow> jsstring \<Rightarrow> jsstring \<Rightarrow> (jsstring \<times> jsval) list option
     \<Rightarrow> handler_outcome" where
  "create_database env c parentId title properties_arg =
     try_catch env (js ''Error creating database: '')
       (create_database_try env c parentId title properties_arg)"

text \<open>\<open>query-database\<close>\<close>

definition query_database_try ::
  "js_env \<Rightarrow> NotionClient \<Rightarrow> jsstring \<Rightarrow> (jsstring \<times> jsval) list option \<Rightarrow> jsval list option
     \<Rightarrow> jsstring option \<Rightarrow> rat option \<Rightarrow> handler_outcome" where
  "query_database_try env c databaseId filter_arg sorts startCursor pageSize =
     (let queryParams0 = JObj [];
          queryParams1 = (if truthy (optional JObj filter_arg)
                          then set_prop queryParams0 (js ''filter'') (optional JObj filter_arg)
                          else queryParams0);
          queryParams2 = (if truthy (optional JArr sorts)
                          then set_prop queryParams1 (js ''sorts'') (optional JArr sorts)
                          else queryParams1);
          queryParams3 = (if truthy (optional JStr startCursor)
                          then set_prop queryParams2 (js ''start_cursor'')
                                 (optional JStr startCursor)
                          else queryParams2);
          queryParams4 = (if truthy (optional JNum pageSize)
                          then set_prop queryParams3 (js ''page_size'') (optional JNum pageSize)
                          else queryParams3)
      in return_json env (queryDatabase env c databaseId queryParams4))"

definition query_database ::
  "js_env \<Rightarrow> NotionClient \<Rightarrow> jsstring \<Rightarrow> (jsstring \<times> jsval) list option \<Rightarrow> jsval list option
     \<Rightarrow> jsstring option \<Rightarrow> rat option \<Rightarrow> handler_outcome" where
  "query_database env c databaseId filter_arg sorts startCursor pageSize =
     try_catch env (js ''Error querying database: '')
       (query_database_try env c databaseId filter_arg sorts startCursor pageSize)"

text \<open>
  \<open>get-block-children\<close>. The handler passes three arguments to
  \<open>getBlockChildren(blockId, params?)\<close>: \<open>startCursor\<close> arrives as \<open>params\<close> and \<open>pageSize\<close>
  is dropped.
\<close>

definition get_block_children_try ::
  "js_env \<Rightarrow> NotionClient \<Rightarrow> jsstring \<Rightarrow> jsstring option \<Rightarrow> rat option \<Rightarrow> handler_outcome"
  where
  "get_block_children_try env c blockId startCursor pageSize =
     return_json env (getBlockChildren env c blockId (optional JStr startCursor))"

definition get_block_children ::
  "js_env \<Rightarrow> NotionClient \<Rightarrow> jsstring \<Rightarrow> jsstring option \<Rightarrow> rat option \<Rightarrow> handler_outcome"
  where
  "get_block_children env c blockId startCursor pageSize =
     try_catch env (js ''Error retrieving block children: '')
       (get_block_children_try env c blockId startCursor pageSize)"

text \<open>\<open>append-block-children\<close>\<close>

definition append_block_children_try ::
  "js_env \<Rightarrow> NotionClient \<Rightarrow> jsstring \<Rightarrow> jsstring \<Rightarrow> handler_outcome" where
  "append_block_children_try env c blockId content_arg =
     return_json env
       (appendBlockChildren env c blockId
          (JArr [JObj [(js ''object'', JStr (js ''block'')),
                       (js ''type'', JStr (js ''paragraph'')),
                       (js ''paragraph'',
                        JObj [(js ''rich_text'',
                               JArr [JObj [(js ''type'', JStr (js ''text'')),
                                           (js ''text'',
                                            JObj [(js ''content'', JStr content_arg)])]])])]]))"

definition append_block_children ::
  "js_env \<Rightarrow> NotionClient \<Rightarrow> jsstring \<Rightarrow> jsstring \<Rightarrow> handler_outcome" where
  "append_block_children env c blockId content_arg =
     try_catch env (js ''Error appending blocks: '')
       (append_block_children_try env c blockId content_arg)"

text \<open>\<open>get-comments\<close>\<close>

definition get_comments_try ::
  "js_env \<Rightarrow> NotionClient \<Rightarrow> jsstring \<Rightarrow> jsstring option \<Rightarrow> rat option \<Rightarrow> handler_outcome"
  where
  "get_comments_try env c blockId startCursor pageSize =
     return_json env
       (getComments env c blockId (optional JStr startCursor) (optional JNum pageSize))"

definition get_comments ::
  "js_env \<Rightarrow> NotionClient \<Rightarrow> jsstring \<Rightarrow> jsstring option \<Rightarrow> rat option \<Rightarrow> handler_outcome"
  where
  "get_comments env c blockId startCursor pageSize =
     try_catch env (js ''Error retrieving comments: '')
       (get_comments_try env c blockId startCursor pageSize)"

text \<open>\<open>create-comment\<close>\<close>

definition create_comment_try ::
  "js_env \<Rightarrow> NotionClient \<Rightarrow> jsstring \<Rightarrow> jsstring \<Rightarrow> handler_outcome" where
  "create_comment_try env c pageId text_arg =
     return_json env
       (createComment env c
          (JObj [(js ''parent'', JObj [(js ''page_id'', JStr pageId)]),
                 (js ''rich_text'', rich_text text_arg)]))"

definition create_comment ::
  "js_env \<Rightarrow> NotionClient \<Rightarrow> jsstring \<Rightarrow> jsstring \<Rightarrow> handler_outcome" where
  "create_comment env c pageId text_arg =
     try_catch env (js ''Error creating comment: '') (create_comment_try env c pageId text_arg)"

text \<open>
  \<open>get-all-pages\<close>. \<open>pageSize\<close> has the default 100. The template literal reads
  \<open>results.results.length\<close> and \<open>results.has_more\<close>, each of which can throw.
\<close>

definition get_all_pages_try ::
  "js_env \<Rightarrow> NotionClient \<Rightarrow> jsstring option \<Rightarrow> rat option \<Rightarrow> handler_outcome" where
  "get_all_pages_try env c startCursor pageSize_arg =
     (let pageSize = (if optional JNum pageSize_arg = JUndefined then JNum 100
                      else optional JNum pageSize_arg)
      in case search env c
                (JObj [(js ''filter'', JObj [(js ''value'', JStr (js ''page'')),
                                             (js ''property'', JStr (js ''object''))]),
                       (js ''page_size'', pageSize),
                       (js ''start_cursor'', optional JStr startCursor)]) of
           (Inl e, calls) \<Rightarrow> (Inl e, calls)
         | (Inr results, calls) \<Rightarrow>
             (case get_prop env results (js ''results'') of
                Inl e \<Rightarrow> (Inl e, calls)
              | Inr rs \<Rightarrow>
                  (case get_prop env rs (js ''length'') of
                     Inl e \<Rightarrow> (Inl e, calls)
                   | Inr n \<Rightarrow>
                       (case get_prop env results (js ''has_more'') of
                          Inl e \<Rightarrow> (Inl e, calls)
                        | Inr has_more \<Rightarrow>
                            (Inr (text_result
                                    (js ''Found '' @ String_of env n @ js '' pages. ''
                                     @ (if truthy has_more then js ''More pages available.''
                                        else js ''No more pages available.'')
                                     @ [0x0A, 0x0A] @ JSON_stringify_indent2 env results)),
                             calls)))))"

definition get_all_pages ::
  "js_env \<Rightarrow> NotionClient \<Rightarrow> jsstring option \<Rightarrow> rat option \<Rightarrow> handler_outcome" where
  "get_all_pages env c startCursor pageSize_arg =
     try_catch env (js ''Error retrieving pages: '')
       (get_all_pages_try env c startCursor pageSize_arg)"

subsection \<open>Invocations\<close>

text \<open>A tool invocation: the tool with the arguments its parameter schema accepts.\<close>

datatype tool_call =
    Get_current_user
  | List_users "jsstring option" "rat option"
  | Search "jsstring option" "object_kind option" "sort_field option" "sort_direction option"
      "rat option" "jsstring option"
  | Get_page jsstring
  | Create_page parent_kind jsstring jsstring "(jsstring \<times> jsval) list option" "jsstring option"
  | Get_database jsstring
  | Create_database jsstring jsstring "(jsstring \<times> jsval) list option"
  | Query_database jsstring "(jsstring \<times> jsval) list option" "jsval list option"
      "jsstring option" "rat option"
  | Get_block_children jsstring "jsstring option" "rat option"
  | Append_block_children jsstring jsstring
  | Get_comments jsstring "jsstring option" "rat option"
  | Create_comment jsstring jsstring
  | Get_all_pages "jsstring option" "rat option"

fun name_of :: "tool_call \<Rightarrow> jsstring" where
  "name_of Get_current_user = js ''get-current-user''"
| "name_of (List_users sc ps) = js ''list-users''"
| "name_of (Search q f s d ps sc) = js ''search''"
| "name_of (Get_page i) = js ''get-page''"
| "name_of (Create_page k i t p ct) = js ''create-page''"
| "name_of (Get_database i) = js ''get-database''"
| "name_of (Create_database i t p) = js ''create-database''"
| "name_of (Query_database i f s sc ps) = js ''query-database''"
| "name_of (Get_block_children i sc ps) = js ''get-block-children''"
| "name_of (Append_block_children i ct) = js ''append-block-children''"
| "name_of (Get_comments i sc ps) = js ''get-comments''"
| "name_of (Create_comment i t) = js ''create-comment''"
| "name_of (Get_all_pages sc ps) = js ''get-all-pages''"

text \<open>The \<open>try\<close> block of the handler that an invocation runs.\<close>

fun try_block :: "js_env \<Rightarrow> NotionClient \<Rightarrow> tool_call \<Rightarrow> handler_outcome" where
  "try_block env c Get_current_user = get_current_user_try env c"
| "try_block env c (List_users sc ps) = list_users_try env c sc ps"
| "try_block env c (Search q f s d ps sc) = search_try env c q f s d ps sc"
| "try_block env c (Get_page i) = get_page_try env c i"
| "try_block env c (Create_page k i t p ct) = create_page_try env c k i t p ct"
| "try_block env c (Get_database i) = get_database_try env c i"
| "try_block env c (Create_database i t p) = create_database_try env c i t p"
| "try_block env c (Query_database i f s sc ps) = query_database_try env c i f s sc ps"
| "try_block env c (Get_block_children i sc ps) = get_block_children_try env c i sc ps"
| "try_block env c (Append_block_children i ct) = append_block_children_try env c i ct"
| "try_block env c (Get_comments i sc ps) = get_comments_try env c i sc ps"
| "try_block env c (Create_comment i t) = create_comment_try env c i t"
| "try_block env c (Get_all_pages sc ps) = get_all_pages_try env c sc ps"

text \<open>The handler that an invocation runs.\<close>

fun handler :: "js_env \<Rightarrow> NotionClient \<Rightarrow> tool_call \<Rightarrow> handler_outcome" where
  "handler env c Get_current_user = get_current_user env c"
| "handler env c (List_users sc ps) = list_users env c sc ps"
| "handler env c (Search q f s d ps sc) = search_tool env c q f s d ps sc"
| "handler env c (Get_page i) = get_page env c i"
| "handler env c (Create_page k i t p ct) = create_page env c k i t p ct"
| "handler env c (Get_database i) = get_database env c i"
| "handler env c (Create_database i t p) = create_database env c i t p"
| "handler env c (Query_database i f s sc ps) = query_database env c i f s sc ps"
| "handler env c (Get_block_children i sc ps) = get_block_children env c i sc ps"
| "handler env c (Append_block_children i ct) = append_block_children env c i ct"
| "handler env c (Get_comments i sc ps) = get_comments env c i sc ps"
| "handler env c (Create_comment i t) = create_comment env c i t"
| "handler env c (Get_all_pages sc ps) = get_all_pages env c sc ps"

subsection \<open>Registration\<close>

text \<open>
  What the host sees of a registered tool. The server is the list of its tools in the order
  of registration; \<open>server.tool(name, description, schema, handler)\<close> adds one.
\<close>

record tool_entry =
  tool_name :: jsstring
  tool_description :: jsstring

type_synonym McpServer = "tool_entry list"

definition server_tool :: "jsstring \<Rightarrow> jsstring \<Rightarrow> McpServer \<Rightarrow> McpServer" where
  "server_tool n d server = server @ [\<lparr>tool_name = n, tool_description = d\<rparr>]"

text \<open>The names in the answer to the host's request for the list of tools.\<close>

definition listed_tools :: "McpServer \<Rightarrow> jsstring list" where
  "listed_tools server = map tool_name server"

text \<open>
  The statement \<open>if (toolConfig[key] !== false) { register }\<close>. The configuration is a
  \<open>Record<string, boolean>\<close>; the test holds for a key that is absent.
\<close>

definition if_enabled ::
  "(jsstring \<rightharpoonup> bool) \<Rightarrow> jsstring \<Rightarrow> (McpServer \<Rightarrow> McpServer) \<Rightarrow> McpServer \<Rightarrow> McpServer" where
  "if_enabled toolConfig key register server =
     (if toolConfig key \<noteq> Some False then register server else server)"

text \<open>\<open>registerNotionTools(server, notionClient, toolConfig)\<close>\<close>

definition registerNotionTools :: "McpServer \<Rightarrow> (jsstring \<rightharpoonup> bool) \<Rightarrow> McpServer" where
  "registerNotionTools server0 toolConfig =
     (let
          server1 = if_enabled toolConfig (js ''get-current-user'')
                      (server_tool (js ''get-current-user'')
                         (js ''Get information about the current authenticated user (bot)'')) server0;
          server2 = if_enabled toolConfig (js ''list-users'')
                      (server_tool (js ''list-users'')
                         (js ''List all users in the workspace'')) server1;
          server3 = if_enabled toolConfig (js ''search'')
                      (server_tool (js ''search'')
                         (js ''Search for pages or databases in Notion workspace'')) server2;
          server4 = if_enabled toolConfig (js ''get-page'')
                      (server_tool (js ''get-page'')
                         (js ''Retrieve a page by ID'')) server3;
          server5 = if_enabled toolConfig (js ''create-page'')
                      (server_tool (js ''create-page'')
                         (js ''Create a new page in Notion'')) server4;
          server6 = if_enabled toolConfig (js ''get-database'')
                      (server_tool (js ''get-database'')
                         (js ''Retrieve a database by ID'')) server5;
          server7 = if_enabled toolConfig (js ''create-database'')
                      (server_tool (js ''create-database'')
                         (js ''Create a new database in Notion'')) server6;
          server8 = if_enabled toolConfig (js ''query-database'')
                      (server_tool (js ''query-database'')
                         (js ''Query a database to retrieve its pages'')) server7;
          server9 = if_enabled toolConfig (js ''get-block-children'')
                      (server_tool (js ''get-block-children'')
                         (js ''Retrieve children blocks of a block or page'')) server8;
          server10 = if_enabled toolConfig (js ''append-block-children'')
                      (server_tool (js ''append-block-children'')
                         (js ''Append blocks to a parent block or page'')) server9;
          server11 = if_enabled toolConfig (js ''get-comments'')
                      (server_tool (js ''get-comments'')
                         (js ''Retrieve comments from a block or page'')) server10;
          server12 = if_enabled toolConfig (js ''create-comment'')
                      (server_tool (js ''create-comment'')
                         (js ''Create a comment on a page'')) server11;
          server13 = if_enabled toolConfig (js ''get-all-pages'')
                      (server_tool (js ''get-all-pages'')
                         (js ''Retrieve all pages from Notion that the integration has access to'')) server12
      in server13)"

text \<open>The configuration and the server of the entry point.\<close>

definition toolConfig :: "jsstring \<rightharpoonup> bool" where
  "toolConfig =
     map_of
       [(js ''get-current-user'', True),
        (js ''list-users'', True),
        (js ''search'', True),
        (js ''get-page'', True),
        (js ''create-page'', True),
        (js ''get-database'', False),
        (js ''create-database'', False),
        (js ''query-database'', False),
        (js ''get-block-children'', True),
        (js ''append-block-children'', True),
        (js ''get-comments'', False),
        (js ''create-comment'', False),
        (js ''get-all-pages'', True)]"

definition main_server :: McpServer where
  "main_server = registerNotionTools [] toolConfig"

section \<open>Notions of the specification\<close>

subsection \<open>Identifiers\<close>

text \<open>
  The string left after stripping quote characters, whitespace and dashes, and the strings
  that reduce in this way to exactly 32 hexadecimal characters.
\<close>

definition reduced :: "jsstring \<Rightarrow> jsstring" where
  "reduced s = filter (\<lambda>c. \<not> is_quote c \<and> \<not> is_whitespace c \<and> \<not> is_dash c) s"

definition reducible_to_32_hex :: "jsstring \<Rightarrow> bool" where
  "reducible_to_32_hex s = (length (reduced s) = 32 \<and> list_all is_hex_digit (reduced s))"

text \<open>
  The input with its quote characters and whitespace removed, dashes kept.
\<close>

definition stripped :: "jsstring \<Rightarrow> jsstring" where
  "stripped s = filter (\<lambda>c. \<not> is_quote c \<and> \<not> is_whitespace c) s"

text \<open>
  A message names a string when the string occurs in it.
\<close>

definition names :: "jsstring \<Rightarrow> jsstring \<Rightarrow> bool" where
  "names msg s = sublist s msg"

text \<open>
  The form \<open>xxxxxxxx-xxxx-xxxx-xxxx-xxxxxxxxxxxx\<close>: 36 characters with dashes at positions
  8, 13, 18 and 23 and a character of the class \<open>H\<close> at every other position.
\<close>

definition is_lower_hex_digit :: "code_unit \<Rightarrow> bool" where
  "is_lower_hex_digit c = ((0x30 \<le> c \<and> c \<le> 0x39) \<or> (0x61 \<le> c \<and> c \<le> 0x66))"

definition dashed_8_4_4_4_12 :: "(code_unit \<Rightarrow> bool) \<Rightarrow> jsstring \<Rightarrow> bool" where
  "dashed_8_4_4_4_12 H r =
     (length r = 36
      \<and> list_all H (take 8 r) \<and> r ! 8 = 0x2D
      \<and> list_all H (take 4 (drop 9 r)) \<and> r ! 13 = 0x2D
      \<and> list_all H (take 4 (drop 14 r)) \<and> r ! 18 = 0x2D
      \<and> list_all H (take 4 (drop 19 r)) \<and> r ! 23 = 0x2D
      \<and> list_all H (drop 24 r))"

text \<open>
  The grouping of a string into 8, 4, 4, 4 and the remaining characters.
\<close>

definition grouped :: "jsstring \<Rightarrow> jsstring" where
  "grouped h = take 8 h @ [0x2D] @ take 4 (drop 8 h) @ [0x2D] @ take 4 (drop 12 h) @ [0x2D]
               @ take 4 (drop 16 h) @ [0x2D] @ drop 20 h"

subsection \<open>Requests and results\<close>

text \<open>
  The request that carries a JSON payload, or none, to a path of the API: the client's base
  URL and its three headers, and the payload serialised with \<open>JSON.stringify\<close>.
\<close>

definition notion_request ::
  "js_env \<Rightarrow> NotionClient \<Rightarrow> jsstring \<Rightarrow> jsstring \<Rightarrow> jsval option \<Rightarrow> api_request" where
  "notion_request env c m path payload =
     \<lparr>url = baseUrl c @ path,
      http_method = m,
      headers = [(js ''Authorization'', js ''Bearer '' @ apiKey c),
                 (js ''Content-Type'', js ''application/json''),
                 (js ''Notion-Version'', apiVersion c)],
      body = map_option (JSON_stringify env) payload\<rparr>"

text \<open>
  The \<open><action>\<close> of the error text \<open>Error <action>: <message>\<close> of each tool.
\<close>

fun action :: "tool_call \<Rightarrow> jsstring" where
  "action Get_current_user = js ''fetching current user''"
| "action (List_users sc ps) = js ''listing users''"
| "action (Search q f s d ps sc) = js ''searching Notion''"
| "action (Get_page i) = js ''retrieving page''"
| "action (Create_page k i t p ct) = js ''creating page''"
| "action (Get_database i) = js ''retrieving database''"
| "action (Create_database i t p) = js ''creating database''"
| "action (Query_database i f s sc ps) = js ''querying database''"
| "action (Get_block_children i sc ps) = js ''retrieving block children''"
| "action (Append_block_children i ct) = js ''appending blocks''"
| "action (Get_comments i sc ps) = js ''retrieving comments''"
| "action (Create_comment i t) = js ''creating comment''"
| "action (Get_all_pages sc ps) = js ''retrieving pages''"

text \<open>
  The search that \<open>get-all-pages\<close> asks for when it has no arguments. A property whose
  value is \<open>undefined\<close> is left out by \<open>JSON.stringify\<close>.
\<close>

definition all_pages_search :: jsval where
  "all_pages_search =
     JObj [(js ''filter'', JObj [(js ''value'', JStr (js ''page'')),
                                 (js ''property'', JStr (js ''object''))]),
           (js ''page_size'', JNum 100),
           (js ''start_cursor'', JUndefined)]"

text \<open>
  The names of the tools, in the order of registration.
\<close>

definition tool_names :: "jsstring list" where
  "tool_names =
     [js ''get-current-user'', js ''list-users'', js ''search'', js ''get-page'',
      js ''create-page'', js ''get-database'', js ''create-database'', js ''query-database'',
      js ''get-block-children'', js ''append-block-children'', js ''get-comments'',
      js ''create-comment'', js ''get-all-pages'']"

subsection \<open>Page properties under a database parent\<close>

text \<open>
  The title property \<open>{ title: [{ type: 'text', text: { content: title } }] }\<close> and the
  properties that the caller supplied, empty when omitted.
\<close>

definition name_title_property :: "jsstring \<Rightarrow> jsval" where
  "name_title_property title =
     JObj [(js ''title'',
            JArr [JObj [(js ''type'', JStr (js ''text'')),
                        (js ''text'', JObj [(js ''content'', JStr title)])]])]"

definition supplied :: "(jsstring \<times> jsval) list option \<Rightarrow> (jsstring \<times> jsval) list" where
  "supplied props = (case props of None \<Rightarrow> [] | Some p \<Rightarrow> p)"

text \<open>
  The properties of the page as C4 states them: \<open>Name\<close> is synthesized if and only if the
  supplied properties have no \<open>Name\<close> key.
\<close>

definition claimed_page_properties ::
  "jsstring \<Rightarrow> (jsstring \<times> jsval) list option \<Rightarrow> (jsstring \<times> jsval) list" where
  "claimed_page_properties title props =
     (if map_of (supplied props) (js ''Name'') = None
      then supplied props @ [(js ''Name'', name_title_property title)]
      else supplied props)"

text \<open>
  The properties of the page as the handler builds them: \<open>Name\<close> is synthesized if and
  only if the title is not empty and the supplied properties have no \<open>Name\<close> with a truthy
  value.
\<close>

definition has_truthy_Name :: "(jsstring \<times> jsval) list \<Rightarrow> bool" where
  "has_truthy_Name p = (case map_of p (js ''Name'') of None \<Rightarrow> False | Some v \<Rightarrow> truthy v)"

definition amended_page_properties ::
  "jsstring \<Rightarrow> (jsstring \<times> jsval) list option \<Rightarrow> (jsstring \<times> jsval) list" where
  "amended_page_properties title props =
     (if title \<noteq> [] \<and> \<not> has_truthy_Name (supplied props)
      then AList.update (js ''Name'') (name_title_property title) (supplied props)
      else supplied props)"

subsection \<open>A platform for examples\<close>

text \<open>
  A platform whose \<open>fetch\<close> answers every request with one outcome, whose serialisers
  return a fixed text, and which prints a natural number in decimal; and a client.
\<close>

fun decimal :: "nat \<Rightarrow> string" where
  "decimal n = (if n < 10 then [''0123456789'' ! n] else decimal (n div 10) @ [''0123456789'' ! (n mod 10)])"

definition example_env :: "fetch_outcome \<Rightarrow> js_env" where
  "example_env outcome =
     \<lparr>fetch = (\<lambda>req. outcome),
      JSON_stringify = (\<lambda>v. js ''<json>''),
      JSON_stringify_indent2 = (\<lambda>v. js ''<indented json>''),
      ToString = (\<lambda>v. case v of JNum n \<Rightarrow> js (decimal (nat \<lfloor>n\<rfloor>)) | _ \<Rightarrow> js ''<string>''),
      URLSearchParams_toString =
        (\<lambda>q. concat (map (\<lambda>(k, v). k @ js ''='' @ v @ js ''&'') q)),
      TypeError_message = (\<lambda>v k. js ''Cannot read properties'')\<rparr>"

definition example_client :: NotionClient where
  "example_client = new_NotionClient (js ''secret'')"

section \<open>Identifier validation: properties\<close>

lemmas char_class_defs =
  is_whitespace_def is_quote_def is_dash_def is_hex_digit_def is_lower_hex_digit_def

lemma hex_not_ws: "is_hex_digit c \<Longrightarrow> \<not> is_whitespace c"
  unfolding is_hex_digit_def is_whitespace_def
  by (auto simp: word_le_nat_alt)

lemma hex_not_quote: "is_hex_digit c \<Longrightarrow> \<not> is_quote c"
  unfolding is_hex_digit_def is_quote_def
  by auto

lemma hex_not_dash: "is_hex_digit c \<Longrightarrow> \<not> is_dash c"
  unfolding is_hex_digit_def is_dash_def
  by auto

lemma filter_dropWhile_same: "filter (\<lambda>c. \<not> P c) (dropWhile P s) = filter (\<lambda>c. \<not> P c) s"
  by (induction s) auto

lemma remove_all_trim: "remove_all is_whitespace (trim s) = remove_all is_whitespace s"
  unfolding remove_all_def trim_def
  by (simp add: filter_dropWhile_same flip: rev_filter)

lemma remove_all_comm: "remove_all P (remove_all Q s) = remove_all Q (remove_all P s)"
  unfolding remove_all_def by (induction s) auto

lemma clean_eq: "remove_all is_dash (remove_all is_whitespace (remove_all is_quote (trim s))) = reduced s"
proof -
  have "remove_all is_whitespace (remove_all is_quote (trim s)) = remove_all is_quote (remove_all is_whitespace s)"
    by (simp add: remove_all_comm [of is_whitespace] remove_all_trim)
  then show ?thesis
    by (simp add: remove_all_def reduced_def conj_commute conj_left_commute)
qed

text \<open>
  Validation in terms of the reduced string: the trimming and the three replacements amount
  to one filter.
\<close>

lemma validateUUID_unfold:
  "validateUUID s =
     (if s = [] then Inl (Error (js ''Notion ID cannot be empty''))
      else if \<not> test_hex32 (reduced s)
      then Inl (Error (js ''Invalid Notion ID format: ''
                       @ filter (\<lambda>c. \<not> is_quote c \<and> \<not> is_whitespace c) s
                       @ js ''. Expected a 32-character hexadecimal string.''))
      else Inr (grouped (reduced s)))"
proof -
  have u: "remove_all is_whitespace (remove_all is_quote (trim s))
           = filter (\<lambda>c. \<not> is_quote c \<and> \<not> is_whitespace c) s"
    by (simp add: remove_all_comm [of is_whitespace] remove_all_trim)
       (simp add: remove_all_def conj_commute)
  have d: "js ''-'' = [0x2D]" by (simp add: js_def)
  show ?thesis
    unfolding validateUUID_def Let_def clean_eq
    by (simp add: u d grouped_def slice_def slice_from_def)
qed

lemma reduced_nonempty: "reducible_to_32_hex s \<Longrightarrow> s \<noteq> []"
  by (auto simp: reducible_to_32_hex_def reduced_def)

lemma remove_dash_grouped:
  "list_all is_hex_digit h \<Longrightarrow> remove_all is_dash (grouped h) = h"
proof -
  assume a: "list_all is_hex_digit h"
  have f: "\<And>xs. set xs \<subseteq> set h \<Longrightarrow> filter (\<lambda>c. c \<noteq> 0x2D) xs = xs"
    using a hex_not_dash by (auto simp: list_all_iff filter_id_conv is_dash_def)
  have "filter (\<lambda>c. \<not> is_dash c) (grouped h)
        = take 8 h @ take 4 (drop 8 h) @ take 4 (drop 12 h) @ take 4 (drop 16 h) @ drop 20 h"
    unfolding grouped_def
    by (simp add: f set_take_subset set_drop_subset is_dash_def
        subset_trans [OF set_take_subset set_drop_subset])
  also have "\<dots> = h"
  proof -
    have "take 20 h = take 16 h @ take 4 (drop 16 h)" using take_add [of 16 4 h] by simp
    moreover have "take 16 h = take 12 h @ take 4 (drop 12 h)" using take_add [of 12 4 h] by simp
    moreover have "take 12 h = take 8 h @ take 4 (drop 8 h)" using take_add [of 8 4 h] by simp
    ultimately have "take 8 h @ take 4 (drop 8 h) @ take 4 (drop 12 h) @ take 4 (drop 16 h)
                     = take 20 h" by simp
    then show ?thesis using append_take_drop_id [of 20 h] by (simp flip: append_assoc)
  qed
  finally show ?thesis by (simp add: remove_all_def)
qed

lemma dashed_grouped:
  assumes "length h = 32"
  shows "dashed_8_4_4_4_12 H (grouped h) = list_all H h"
proof -
  have h: "h = take 8 h @ take 4 (drop 8 h) @ take 4 (drop 12 h) @ take 4 (drop 16 h) @ drop 20 h"
  proof -
    have "take 20 h = take 16 h @ take 4 (drop 16 h)" using take_add [of 16 4 h] by simp
    moreover have "take 16 h = take 12 h @ take 4 (drop 12 h)" using take_add [of 12 4 h] by simp
    moreover have "take 12 h = take 8 h @ take 4 (drop 8 h)" using take_add [of 8 4 h] by simp
    ultimately have "take 8 h @ take 4 (drop 8 h) @ take 4 (drop 12 h) @ take 4 (drop 16 h)
                     = take 20 h" by simp
    then show ?thesis using append_take_drop_id [of 20 h] by (simp flip: append_assoc)
  qed
  have "list_all H h = (list_all H (take 8 h) \<and> list_all H (take 4 (drop 8 h))
          \<and> list_all H (take 4 (drop 12 h)) \<and> list_all H (take 4 (drop 16 h))
          \<and> list_all H (drop 20 h))"
    by (subst h) (simp only: list_all_append)
  moreover have "dashed_8_4_4_4_12 H (grouped h) = (list_all H (take 8 h) \<and> list_all H (take 4 (drop 8 h))
          \<and> list_all H (take 4 (drop 12 h)) \<and> list_all H (take 4 (drop 16 h))
          \<and> list_all H (drop 20 h))"
    using assms unfolding dashed_8_4_4_4_12_def grouped_def
    by (simp add: nth_append)
  ultimately show ?thesis by simp
qed

lemma set_grouped: "set (grouped h) \<subseteq> insert 0x2D (set h)"
  unfolding grouped_def
  by (auto dest: in_set_takeD in_set_dropD)

lemma reduced_grouped:
  assumes "list_all is_hex_digit h"
  shows "reduced (grouped h) = h"
proof -
  have "\<And>c. c \<in> set (grouped h) \<Longrightarrow> \<not> is_quote c \<and> \<not> is_whitespace c"
  proof -
    fix c assume "c \<in> set (grouped h)"
    then have "c = 0x2D \<or> is_hex_digit c"
      using set_grouped [of h] assms by (auto simp: list_all_iff)
    then show "\<not> is_quote c \<and> \<not> is_whitespace c"
      using hex_not_quote hex_not_ws by (auto simp: is_quote_def is_whitespace_def)
  qed
  then have "reduced (grouped h) = remove_all is_dash (grouped h)"
    unfolding reduced_def remove_all_def by (intro filter_cong) auto
  then show ?thesis using assms by (simp add: remove_dash_grouped)
qed

lemma example_env_simps:
  "fetch (example_env outcome) req = outcome"
  "JSON_stringify (example_env outcome) v = js ''<json>''"
  "JSON_stringify_indent2 (example_env outcome) v = js ''<indented json>''"
  "ToString (example_env outcome) (JNum n) = js (decimal (nat \<lfloor>n\<rfloor>))"
  "TypeError_message (example_env outcome) v k = js ''Cannot read properties''"
  by (simp_all add: example_env_def)

text \<open>
  C1, amended. For every string that reduces to exactly 32 hexadecimal characters, validation
  succeeds and returns a string of the form 8-4-4-4-12 with dashes at positions 8, 13, 18 and
  23, whose other characters are the hexadecimal characters of the input, in their order and
  in their case. The result is in lowercase exactly when the hexadecimal characters of the
  input are.
\<close>

theorem validateUUID_normalizes:
  assumes "reducible_to_32_hex s"
  shows "\<exists>r. validateUUID s = Inr r
           \<and> dashed_8_4_4_4_12 is_hex_digit r
           \<and> remove_all is_dash r = reduced s
           \<and> (dashed_8_4_4_4_12 is_lower_hex_digit r = list_all is_lower_hex_digit (reduced s))"
proof -
  from assms have l: "length (reduced s) = 32" and a: "list_all is_hex_digit (reduced s)"
    by (simp_all add: reducible_to_32_hex_def)
  have "validateUUID s = Inr (grouped (reduced s))"
    using assms reduced_nonempty [OF assms] l a
    by (simp add: validateUUID_unfold test_hex32_def)
  then show ?thesis
    using l a by (simp add: dashed_grouped remove_dash_grouped)
qed

theorem validateUUID_normalizes_witness:
  \<open>reducible_to_32_hex (js '' "1a2b3c4d-5E6F-7a8b9c0d-1e2f3a4b5c6d" '')
   \<and> (\<exists>r. validateUUID (js '' "1a2b3c4d-5E6F-7a8b9c0d-1e2f3a4b5c6d" '') = Inr r
           \<and> dashed_8_4_4_4_12 is_hex_digit r
           \<and> remove_all is_dash r = reduced (js '' "1a2b3c4d-5E6F-7a8b9c0d-1e2f3a4b5c6d" '')
           \<and> (dashed_8_4_4_4_12 is_lower_hex_digit r
                = list_all is_lower_hex_digit (reduced (js '' "1a2b3c4d-5E6F-7a8b9c0d-1e2f3a4b5c6d" ''))))\<close>
proof -
  have h: \<open>reducible_to_32_hex (js '' "1a2b3c4d-5E6F-7a8b9c0d-1e2f3a4b5c6d" '')\<close>
    by (simp add: reducible_to_32_hex_def reduced_def js_def char_class_defs)
  show ?thesis using h validateUUID_normalizes [OF h] by simp
qed

text \<open>
  C1 as stated promises lowercase. On an input with uppercase letters validation succeeds
  and returns them in uppercase.
\<close>

theorem validateUUID_lowercase_counterexample:
  "reducible_to_32_hex (js ''ABCDEF0123456789ABCDEF0123456789'')
   \<and> validateUUID (js ''ABCDEF0123456789ABCDEF0123456789'')
       = Inr (js ''ABCDEF01-2345-6789-ABCD-EF0123456789'')
   \<and> \<not> dashed_8_4_4_4_12 is_lower_hex_digit (js ''ABCDEF01-2345-6789-ABCD-EF0123456789'')"
  by (simp add: reducible_to_32_hex_def validateUUID_unfold test_hex32_def grouped_def
      dashed_8_4_4_4_12_def reduced_def js_def char_class_defs)

text \<open>
  C3, amended. For every string that does not reduce to exactly 32 hexadecimal characters,
  validation fails: on the empty string with the message \<open>Notion ID cannot be empty\<close>, on
  any other string with a message that names the input with its quote characters and
  whitespace removed (dashes kept). \<open>getPage\<close> then fails with the same error and makes no
  \<open>fetch\<close> call.
\<close>

theorem validateUUID_rejects:
  assumes "\<not> reducible_to_32_hex s"
  shows "validateUUID s =
           Inl (Error (if s = [] then js ''Notion ID cannot be empty''
                       else js ''Invalid Notion ID format: '' @ stripped s
                            @ js ''. Expected a 32-character hexadecimal string.''))
         \<and> getPage env c s =
           (Inl (Error (if s = [] then js ''Notion ID cannot be empty''
                        else js ''Invalid Notion ID format: '' @ stripped s
                             @ js ''. Expected a 32-character hexadecimal string.'')), [])"
proof -
  from assms have "\<not> test_hex32 (reduced s)"
    by (simp add: reducible_to_32_hex_def test_hex32_def)
  then have "validateUUID s =
           Inl (Error (if s = [] then js ''Notion ID cannot be empty''
                       else js ''Invalid Notion ID format: '' @ stripped s
                            @ js ''. Expected a 32-character hexadecimal string.''))"
    by (simp add: validateUUID_unfold stripped_def)
  then show ?thesis by (simp add: getPage_def)
qed

theorem validateUUID_rejects_witness:
  "\<not> reducible_to_32_hex (js ''12 34-xyz'')
   \<and> validateUUID (js ''12 34-xyz'')
       = Inl (Error (js ''Invalid Notion ID format: 1234-xyz. Expected a 32-character hexadecimal string.''))
   \<and> getPage (example_env (Rejected (Thrown JNull))) example_client (js ''12 34-xyz'')
       = (Inl (Error (js ''Invalid Notion ID format: 1234-xyz. Expected a 32-character hexadecimal string.'')), [])"
proof -
  have h: "\<not> reducible_to_32_hex (js ''12 34-xyz'')"
    by (simp add: reducible_to_32_hex_def reduced_def js_def char_class_defs)
  have s: "stripped (js ''12 34-xyz'') = js ''1234-xyz''"
    by (simp add: stripped_def js_def char_class_defs)
  have n: "js ''12 34-xyz'' \<noteq> []" by (simp add: js_def)
  show ?thesis
    using h validateUUID_rejects [OF h, of "example_env (Rejected (Thrown JNull))" example_client]
    by (simp only: s n if_False) (simp add: js_def)
qed

text \<open>
  C3 as stated says that the message names the original input. For an input in quotes the
  message names the input without them, and the original does not occur in it.
\<close>

theorem validateUUID_names_original_counterexample:
  \<open>\<not> reducible_to_32_hex (js ''"zz"'')
   \<and> validateUUID (js ''"zz"'')
       = Inl (Error (js ''Invalid Notion ID format: zz. Expected a 32-character hexadecimal string.''))
   \<and> \<not> names (js ''Invalid Notion ID format: zz. Expected a 32-character hexadecimal string.'')
             (js ''"zz"'')\<close>
proof -
  have \<open>\<not> set (js ''"zz"'')
          \<subseteq> set (js ''Invalid Notion ID format: zz. Expected a 32-character hexadecimal string.'')\<close>
    by (simp add: js_def)
  then have \<open>\<not> names (js ''Invalid Notion ID format: zz. Expected a 32-character hexadecimal string.'')
             (js ''"zz"'')\<close>
    unfolding names_def using set_mono_sublist by blast
  moreover have \<open>\<not> reducible_to_32_hex (js ''"zz"'')\<close>
    by (simp add: reducible_to_32_hex_def reduced_def js_def char_class_defs)
  moreover have \<open>validateUUID (js ''"zz"'')
       = Inl (Error (js ''Invalid Notion ID format: zz. Expected a 32-character hexadecimal string.''))\<close>
    by (simp add: validateUUID_unfold test_hex32_def reduced_def js_def char_class_defs)
  ultimately show ?thesis by simp
qed

text \<open>
  C10. Validation is idempotent: when it succeeds on a string, it succeeds on its result and
  returns that result unchanged.
\<close>

theorem validateUUID_idempotent:
  assumes "validateUUID s = Inr r"
  shows "validateUUID r = Inr r"
proof -
  from assms have t: "test_hex32 (reduced s)" and r: "r = grouped (reduced s)"
    by (auto simp: validateUUID_unfold split: if_splits)
  from t have a: "list_all is_hex_digit (reduced s)" and l: "length (reduced s) = 32"
    by (simp_all add: test_hex32_def)
  have "reduced r = reduced s" using a r by (simp add: reduced_grouped)
  moreover have "r \<noteq> []" using r by (simp add: grouped_def)
  ultimately show ?thesis using t r by (simp add: validateUUID_unfold)
qed

theorem validateUUID_idempotent_witness:
  "validateUUID (js '' 1A2B3C4D5E6F7A8B-9C0D1E2F3A4B5C6D '')
     = Inr (js ''1A2B3C4D-5E6F-7A8B-9C0D-1E2F3A4B5C6D'')
   \<and> validateUUID (js ''1A2B3C4D-5E6F-7A8B-9C0D-1E2F3A4B5C6D'')
     = Inr (js ''1A2B3C4D-5E6F-7A8B-9C0D-1E2F3A4B5C6D'')"
proof -
  have h: "validateUUID (js '' 1A2B3C4D5E6F7A8B-9C0D1E2F3A4B5C6D '')
     = Inr (js ''1A2B3C4D-5E6F-7A8B-9C0D-1E2F3A4B5C6D'')"
    by (simp add: validateUUID_unfold test_hex32_def grouped_def reduced_def js_def char_class_defs)
  show ?thesis using h validateUUID_idempotent [OF h] by simp
qed

section \<open>The client: which operations validate\<close>

lemma snd_request:
  "snd (request env c path m b) = [notion_request env c m path (if truthy b then Some b else None)]"
  by (simp add: request_def notion_request_def Let_def)

lemma fst_request_ok:
  "fetch env (notion_request env c m path (if truthy b then Some b else None)) = Response r
   \<Longrightarrow> ok r \<Longrightarrow> json r = Inr data \<Longrightarrow> fst (request env c path m b) = Inr data"
  by (cases "truthy b") (simp_all add: request_def notion_request_def Let_def)

text \<open>
  \<open>getPage\<close>, \<open>updatePage\<close> and \<open>getBlockChildren\<close> stop at an identifier that validation
  rejects. The operations below them call \<open>fetch\<close> with the identifier as it was given.
\<close>

lemma validated_operations:
  assumes "validateUUID i = Inl e"
  shows "getPage env c i = (Inl e, [])"
    and "updatePage env c i p = (Inl e, [])"
    and "getBlockChildren env c i p = (Inl e, [])"
  using assms by (simp_all add: getPage_def updatePage_def getBlockChildren_def)

lemma unvalidated_operations:
  "snd (getDatabase env c i) = [notion_request env c (js ''GET'') (js ''/v1/databases/'' @ i) None]"
  "snd (queryDatabase env c i p)
     = [notion_request env c (js ''POST'') (js ''/v1/databases/'' @ i @ js ''/query'')
          (if truthy p then Some p else None)]"
  "snd (getBlock env c i) = [notion_request env c (js ''GET'') (js ''/v1/blocks/'' @ i) None]"
  "snd (appendBlockChildren env c i ch)
     = [notion_request env c (js ''PATCH'') (js ''/v1/blocks/'' @ i @ js ''/children'')
          (Some (JObj [(js ''children'', ch)]))]"
  "snd (createDatabase env c p)
     = [notion_request env c (js ''POST'') (js ''/v1/databases'') (if truthy p then Some p else None)]"
  "snd (createComment env c p)
     = [notion_request env c (js ''POST'') (js ''/v1/comments'') (if truthy p then Some p else None)]"
  "length (snd (getComments env c i sc ps)) = 1"
  by (simp_all add: getDatabase_def queryDatabase_def getBlock_def appendBlockChildren_def
      createDatabase_def createComment_def getComments_def snd_request Let_def)

text \<open>
  C5 at the identifier \<open>not-a-uuid\<close>: validation rejects it, and \<open>getDatabase\<close> and
  \<open>appendBlockChildren\<close> send it to the API all the same.
\<close>

theorem getDatabase_skips_validation:
  "validateUUID (js ''not-a-uuid'')
     = Inl (Error (js ''Invalid Notion ID format: not-a-uuid. Expected a 32-character hexadecimal string.''))
   \<and> snd (getDatabase env c (js ''not-a-uuid''))
       = [notion_request env c (js ''GET'') (js ''/v1/databases/not-a-uuid'') None]
   \<and> snd (appendBlockChildren env c (js ''not-a-uuid'') ch)
       = [notion_request env c (js ''PATCH'') (js ''/v1/blocks/not-a-uuid/children'')
            (Some (JObj [(js ''children'', ch)]))]"
proof -
  have "validateUUID (js ''not-a-uuid'')
     = Inl (Error (js ''Invalid Notion ID format: not-a-uuid. Expected a 32-character hexadecimal string.''))"
    by (simp add: validateUUID_unfold test_hex32_def reduced_def js_def char_class_defs)
  moreover have "js ''/v1/databases/'' @ js ''not-a-uuid'' = js ''/v1/databases/not-a-uuid''"
    "js ''/v1/blocks/'' @ js ''not-a-uuid'' @ js ''/children'' = js ''/v1/blocks/not-a-uuid/children''"
    by (simp_all add: js_def)
  ultimately show ?thesis
    using unvalidated_operations(1) [of env c "js ''not-a-uuid''"]
      unvalidated_operations(4) [of env c "js ''not-a-uuid''" ch]
    by simp
qed

section \<open>The tools: properties\<close>

lemma snd_return_json: "snd (return_json env a) = snd a"
  by (cases a) (simp add: return_json_def split: sum.splits)

lemma snd_try_catch: "snd (try_catch env l a) = snd a"
  by (cases a) (simp add: try_catch_def split: sum.splits)

lemma try_catch_Inl:
  "fst attempt = Inl e \<Longrightarrow>
   try_catch env label attempt = (Inr (text_result (label @ error_text env e)), snd attempt)"
  by (cases attempt) (simp add: try_catch_def)

lemma handler_try_catch:
  "handler env c call = try_catch env (js ''Error '' @ action call @ js '': '') (try_block env c call)"
  by (cases call)
     (simp_all add: get_current_user_def list_users_def search_tool_def get_page_def
        create_page_def get_database_def create_database_def query_database_def
        get_block_children_def append_block_children_def get_comments_def create_comment_def
        get_all_pages_def js_def)

text \<open>
  C2. Every handler returns a result and does not throw. When its \<open>try\<close> block fails,
  whether in validation, in the request or in the reshaping of parameters and results, the
  result is a single text item \<open>Error <action>: <message>\<close>, where the message is that of
  the error, or the error converted to a string when it is not an \<open>Error\<close>.
\<close>

theorem tool_failure_is_error_text:
  "(\<exists>r. fst (handler env c call) = Inr r)
   \<and> (\<forall>e. fst (try_block env c call) = Inl e \<longrightarrow>
          handler env c call =
            (Inr \<lparr>content = [\<lparr>item_type = js ''text'',
                                item_text = js ''Error '' @ action call @ js '': ''
                                            @ error_text env e\<rparr>]\<rparr>,
             snd (try_block env c call)))"
proof -
  have "\<exists>r. fst (handler env c call) = Inr r"
    unfolding handler_try_catch
    by (cases "try_block env c call"; cases "fst (try_block env c call)")
       (auto simp: try_catch_def)
  moreover have "\<forall>e. fst (try_block env c call) = Inl e \<longrightarrow>
          handler env c call =
            (Inr \<lparr>content = [\<lparr>item_type = js ''text'',
                                item_text = js ''Error '' @ action call @ js '': ''
                                            @ error_text env e\<rparr>]\<rparr>,
             snd (try_block env c call))"
    unfolding handler_try_catch
    by (simp add: try_catch_Inl text_result_def)
  ultimately show ?thesis by blast
qed

theorem tool_failure_is_error_text_witness:
  "fst (try_block
          (example_env (Response \<lparr>status = 404, ok = False,
             json = Inr (JObj [(js ''message'', JStr (js ''Could not find page'')),
                               (js ''request_id'', JStr (js ''r-1''))])\<rparr>))
          example_client (Get_page (js ''1a2b3c4d5e6f7a8b9c0d1e2f3a4b5c6d'')))
     = Inl (Error (js ''Notion API error: 404 - Could not find page'' @ [0x0A]
                   @ js ''Endpoint: /v1/pages/1a2b3c4d-5e6f-7a8b-9c0d-1e2f3a4b5c6d'' @ [0x0A]
                   @ js ''Request ID: r-1''))
   \<and> handler
         (example_env (Response \<lparr>status = 404, ok = False,
             json = Inr (JObj [(js ''message'', JStr (js ''Could not find page'')),
                               (js ''request_id'', JStr (js ''r-1''))])\<rparr>))
         example_client (Get_page (js ''1a2b3c4d5e6f7a8b9c0d1e2f3a4b5c6d''))
     = (Inr \<lparr>content =
              [\<lparr>item_type = js ''text'',
                item_text = js ''Error retrieving page: Notion API error: 404 - Could not find page''
                   @ [0x0A]
                   @ js ''Endpoint: /v1/pages/1a2b3c4d-5e6f-7a8b-9c0d-1e2f3a4b5c6d'' @ [0x0A]
                   @ js ''Request ID: r-1''\<rparr>]\<rparr>,
        [notion_request
           (example_env (Response \<lparr>status = 404, ok = False,
             json = Inr (JObj [(js ''message'', JStr (js ''Could not find page'')),
                               (js ''request_id'', JStr (js ''r-1''))])\<rparr>))
           example_client (js ''GET'')
           (js ''/v1/pages/1a2b3c4d-5e6f-7a8b-9c0d-1e2f3a4b5c6d'') None])"
proof -
  let ?env = "example_env (Response \<lparr>status = 404, ok = False,
             json = Inr (JObj [(js ''message'', JStr (js ''Could not find page'')),
                               (js ''request_id'', JStr (js ''r-1''))])\<rparr>)"
  let ?call = "Get_page (js ''1a2b3c4d5e6f7a8b9c0d1e2f3a4b5c6d'')"
  have v: "validateUUID (js ''1a2b3c4d5e6f7a8b9c0d1e2f3a4b5c6d'')
     = Inr (js ''1a2b3c4d-5e6f-7a8b-9c0d-1e2f3a4b5c6d'')"
    by (simp add: validateUUID_unfold test_hex32_def grouped_def reduced_def js_def char_class_defs)
  have m: "api_error_message ?env 404
             (JObj [(js ''message'', JStr (js ''Could not find page'')),
                    (js ''request_id'', JStr (js ''r-1''))])
             (js ''/v1/pages/1a2b3c4d-5e6f-7a8b-9c0d-1e2f3a4b5c6d'')
           = Inr (js ''Notion API error: 404 - Could not find page'' @ [0x0A]
                   @ js ''Endpoint: /v1/pages/1a2b3c4d-5e6f-7a8b-9c0d-1e2f3a4b5c6d'' @ [0x0A]
                   @ js ''Request ID: r-1'')"
    by (simp add: api_error_message_def get_prop_def String_of_def example_env_simps js_def)
  have r: "request ?env example_client (js ''/v1/pages/1a2b3c4d-5e6f-7a8b-9c0d-1e2f3a4b5c6d'')
             (js ''GET'') JUndefined
           = (Inl (Error (js ''Notion API error: 404 - Could not find page'' @ [0x0A]
                   @ js ''Endpoint: /v1/pages/1a2b3c4d-5e6f-7a8b-9c0d-1e2f3a4b5c6d'' @ [0x0A]
                   @ js ''Request ID: r-1'')),
              [notion_request ?env example_client (js ''GET'')
                 (js ''/v1/pages/1a2b3c4d-5e6f-7a8b-9c0d-1e2f3a4b5c6d'') None])"
    unfolding request_def Let_def
    by (simp add: example_env_simps m notion_request_def)
  have p: "js ''/v1/pages/'' @ js ''1a2b3c4d-5e6f-7a8b-9c0d-1e2f3a4b5c6d''
           = js ''/v1/pages/1a2b3c4d-5e6f-7a8b-9c0d-1e2f3a4b5c6d''"
    by (simp add: js_def)
  have t: "try_block ?env example_client ?call
           = (Inl (Error (js ''Notion API error: 404 - Could not find page'' @ [0x0A]
                   @ js ''Endpoint: /v1/pages/1a2b3c4d-5e6f-7a8b-9c0d-1e2f3a4b5c6d'' @ [0x0A]
                   @ js ''Request ID: r-1'')),
              [notion_request ?env example_client (js ''GET'')
                 (js ''/v1/pages/1a2b3c4d-5e6f-7a8b-9c0d-1e2f3a4b5c6d'') None])"
    by (simp add: get_page_try_def getPage_def v p r return_json_def)
  have e: "js ''Error '' @ action ?call @ js '': '' = js ''Error retrieving page: ''"
    by (simp add: js_def)
  from tool_failure_is_error_text [of ?env example_client ?call]
  have "handler ?env example_client ?call =
          (Inr \<lparr>content = [\<lparr>item_type = js ''text'',
                              item_text = js ''Error '' @ action ?call @ js '': ''
                                  @ error_text ?env (Error (js ''Notion API error: 404 - Could not find page'' @ [0x0A]
                   @ js ''Endpoint: /v1/pages/1a2b3c4d-5e6f-7a8b-9c0d-1e2f3a4b5c6d'' @ [0x0A]
                   @ js ''Request ID: r-1''))\<rparr>]\<rparr>,
           snd (try_block ?env example_client ?call))"
    using t by simp
  then show ?thesis
    unfolding t by (simp add: error_text_def js_def)
qed

lemma update_absent: "map_of p k = None \<Longrightarrow> AList.update k v p = p @ [(k, v)]"
  by (induction p) (auto split: if_splits)

lemma create_page_properties_database:
  "create_page_properties Database_id title props = JObj (amended_page_properties title props)"
  by (cases props)
     (auto simp: create_page_properties_def amended_page_properties_def supplied_def
        has_truthy_Name_def optional_def Let_def name_title_property_def rich_text_def
        split: option.splits)

lemma amended_is_claimed:
  assumes "title \<noteq> []" and "\<And>v. map_of (supplied props) (js ''Name'') = Some v \<Longrightarrow> truthy v"
  shows "amended_page_properties title props = claimed_page_properties title props"
  using assms
  by (auto simp: amended_page_properties_def claimed_page_properties_def has_truthy_Name_def
      update_absent split: option.splits)

lemma parent_kind_ne: "js ''database_id'' \<noteq> js ''page_id''"
  by (simp add: js_def)

lemma createPage_database:
  assumes "validateUUID parentId = Inr u"
  shows "createPage env c
           (JObj [(js ''parent'', JObj [(js ''type'', JStr (js ''database_id'')),
                                        (js ''database_id'', JStr parentId)]),
                  (js ''properties'', props), (js ''children'', children)])
         = request env c (js ''/v1/pages'') (js ''POST'')
             (JObj [(js ''parent'', JObj [(js ''type'', JStr (js ''database_id'')),
                                          (js ''database_id'', JStr u)]),
                    (js ''properties'', props), (js ''children'', children)])"
proof -
  have k: "js ''type'' \<noteq> js ''database_id''" "js ''database_id'' \<noteq> js ''type''"
    by (simp_all add: js_def)
  show ?thesis
    using assms parent_kind_ne k
    by (simp add: createPage_def get_prop_def validateUUID_any_def)
qed

text \<open>
  C4, amended. For every \<open>create-page\<close> invocation with a database parent, the properties
  of the page are the properties that the caller supplied (empty if omitted), and a \<open>Name\<close>
  title property is synthesized from the title as the rich text
  \<open>[{ type: 'text', text: { content: title } }]\<close> if and only if the title is not empty and the
  supplied properties have no \<open>Name\<close> with a truthy value; a supplied \<open>Name\<close> with a truthy
  value is preserved whatever the title. When the parent identifier is valid, the request to
  \<open>/v1/pages\<close> carries these properties and the normalised identifier.
\<close>

theorem create_page_database_parent:
  assumes "validateUUID parentId = Inr u"
  shows "create_page_properties Database_id title props
           = JObj (amended_page_properties title props)
         \<and> (\<exists>b. snd (create_page env c Database_id parentId title props ct)
                   = [notion_request env c (js ''POST'') (js ''/v1/pages'') (Some b)]
                \<and> prop_of b (js ''parent'')
                   = JObj [(js ''type'', JStr (js ''database_id'')), (js ''database_id'', JStr u)]
                \<and> prop_of b (js ''properties'') = JObj (amended_page_properties title props))"
proof -
  let ?b = "JObj [(js ''parent'', JObj [(js ''type'', JStr (js ''database_id'')),
                                       (js ''database_id'', JStr u)]),
                  (js ''properties'', create_page_properties Database_id title props),
                  (js ''children'',
                   case ct of None \<Rightarrow> JUndefined
                   | Some t \<Rightarrow> if truthy (JStr t) then JArr [paragraph_block t] else JUndefined)]"
  have k: "js ''properties'' \<noteq> js ''parent''" by (simp add: js_def)
  have "snd (create_page env c Database_id parentId title props ct)
        = snd (createPage env c (create_page_params Database_id parentId title props ct))"
    by (simp add: create_page_def create_page_try_def snd_try_catch snd_return_json)
  then have s: "snd (create_page env c Database_id parentId title props ct)
        = [notion_request env c (js ''POST'') (js ''/v1/pages'') (Some ?b)]"
    by (simp add: create_page_params_def Let_def createPage_database [OF assms] snd_request)
  have p: "prop_of ?b (js ''parent'')
           = JObj [(js ''type'', JStr (js ''database_id'')), (js ''database_id'', JStr u)]"
    by simp
  have q: "prop_of ?b (js ''properties'') = JObj (amended_page_properties title props)"
    using k by (simp add: create_page_properties_database)
  show ?thesis
    using s p q create_page_properties_database by blast
qed

theorem create_page_database_parent_witness:
  "validateUUID (js ''1a2b3c4d5e6f7a8b9c0d1e2f3a4b5c6d'')
     = Inr (js ''1a2b3c4d-5e6f-7a8b-9c0d-1e2f3a4b5c6d'')
   \<and> create_page_properties Database_id (js ''Foo'') None
       = JObj [(js ''Name'',
                JObj [(js ''title'',
                       JArr [JObj [(js ''type'', JStr (js ''text'')),
                                   (js ''text'', JObj [(js ''content'', JStr (js ''Foo''))])]])])]
   \<and> (\<exists>b. snd (create_page (example_env (Rejected (Thrown JNull))) example_client Database_id
                   (js ''1a2b3c4d5e6f7a8b9c0d1e2f3a4b5c6d'') (js ''Foo'') None None)
              = [notion_request (example_env (Rejected (Thrown JNull))) example_client
                   (js ''POST'') (js ''/v1/pages'') (Some b)]
           \<and> prop_of b (js ''parent'')
              = JObj [(js ''type'', JStr (js ''database_id'')),
                      (js ''database_id'', JStr (js ''1a2b3c4d-5e6f-7a8b-9c0d-1e2f3a4b5c6d''))]
           \<and> prop_of b (js ''properties'')
              = JObj [(js ''Name'',
                JObj [(js ''title'',
                       JArr [JObj [(js ''type'', JStr (js ''text'')),
                                   (js ''text'', JObj [(js ''content'', JStr (js ''Foo''))])]])])])"
proof -
  have h: "validateUUID (js ''1a2b3c4d5e6f7a8b9c0d1e2f3a4b5c6d'')
     = Inr (js ''1a2b3c4d-5e6f-7a8b-9c0d-1e2f3a4b5c6d'')"
    by (simp add: validateUUID_unfold test_hex32_def grouped_def reduced_def js_def char_class_defs)
  have a: "amended_page_properties (js ''Foo'') None
           = [(js ''Name'',
                JObj [(js ''title'',
                       JArr [JObj [(js ''type'', JStr (js ''text'')),
                                   (js ''text'', JObj [(js ''content'', JStr (js ''Foo''))])]])])]"
    by (simp add: amended_page_properties_def has_truthy_Name_def supplied_def
        name_title_property_def js_def)
  show ?thesis
    using h create_page_database_parent [OF h, of "js ''Foo''" None
        "example_env (Rejected (Thrown JNull))" example_client None]
    by (simp only: a)
qed

text \<open>
  C4 as stated synthesizes \<open>Name\<close> whenever the key is absent. With an empty title and no
  properties the handler sends no \<open>Name\<close>.
\<close>

theorem create_page_empty_title_counterexample:
  "create_page_properties Database_id [] None = JObj []
   \<and> claimed_page_properties [] None = [(js ''Name'', name_title_property [])]"
  by (simp add: create_page_properties_def claimed_page_properties_def supplied_def
      optional_def)

text \<open>
  The other way in which the handler differs from C4 as stated: a supplied \<open>Name\<close> whose
  value is falsy, such as \<open>null\<close>, is replaced.
\<close>

lemma create_page_falsy_Name_example:
  "create_page_properties Database_id (js ''Foo'') (Some [(js ''Name'', JNull)])
     = JObj [(js ''Name'', name_title_property (js ''Foo''))]"
  by (simp add: create_page_properties_database amended_page_properties_def supplied_def
      has_truthy_Name_def js_def)

lemma get_all_pages_success:
  assumes "fetch env (notion_request env c (js ''POST'') (js ''/v1/search'') (Some all_pages_search))
           = Response r"
    and "ok r" and "json r = Inr results"
    and "prop_of results (js ''results'') = JArr pages"
    and "prop_of results (js ''has_more'') = JBool has_more"
  shows "get_all_pages env c None None =
           (Inr \<lparr>content =
                   [\<lparr>item_type = js ''text'',
                     item_text = js ''Found '' @ String_of env (JNum (of_nat (length pages)))
                                 @ js '' pages. ''
                                 @ (if has_more then js ''More pages available.''
                                    else js ''No more pages available.'')
                                 @ [0x0A, 0x0A] @ JSON_stringify_indent2 env results\<rparr>]\<rparr>,
            [notion_request env c (js ''POST'') (js ''/v1/search'') (Some all_pages_search)])
         \<and> prop_of all_pages_search (js ''filter'')
             = JObj [(js ''value'', JStr (js ''page'')), (js ''property'', JStr (js ''object''))]
         \<and> prop_of all_pages_search (js ''page_size'') = JNum 100
         \<and> prop_of all_pages_search (js ''query'') = JUndefined"
proof -
  let ?p = "JObj [(js ''filter'', JObj [(js ''value'', JStr (js ''page'')),
                                 (js ''property'', JStr (js ''object''))]),
           (js ''page_size'', JNum 100),
           (js ''start_cursor'', JUndefined)]"
  have s: "snd (search env c ?p)
           = [notion_request env c (js ''POST'') (js ''/v1/search'') (Some all_pages_search)]"
    by (simp add: search_def snd_request all_pages_search_def)
  have f: "fst (search env c ?p) = Inr results"
    unfolding search_def
    by (rule fst_request_ok [where r = r]) (use assms in \<open>simp_all add: all_pages_search_def\<close>)
  have ne: "results \<noteq> JUndefined" "results \<noteq> JNull"
    using assms(4) by auto
  have "get_all_pages_try env c None None =
          (Inr (text_result (js ''Found '' @ String_of env (JNum (of_nat (length pages)))
                                 @ js '' pages. ''
                                 @ (if has_more then js ''More pages available.''
                                    else js ''No more pages available.'')
                                 @ [0x0A, 0x0A] @ JSON_stringify_indent2 env results)),
           [notion_request env c (js ''POST'') (js ''/v1/search'') (Some all_pages_search)])"
    using s f ne assms(4,5)
    by (cases "search env c ?p")
       (simp add: get_all_pages_try_def optional_def get_prop_def)
  then have "get_all_pages env c None None =
           (Inr \<lparr>content =
                   [\<lparr>item_type = js ''text'',
                     item_text = js ''Found '' @ String_of env (JNum (of_nat (length pages)))
                                 @ js '' pages. ''
                                 @ (if has_more then js ''More pages available.''
                                    else js ''No more pages available.'')
                                 @ [0x0A, 0x0A] @ JSON_stringify_indent2 env results\<rparr>]\<rparr>,
            [notion_request env c (js ''POST'') (js ''/v1/search'') (Some all_pages_search)])"
    by (simp add: get_all_pages_def try_catch_def text_result_def)
  moreover have "prop_of all_pages_search (js ''filter'')
             = JObj [(js ''value'', JStr (js ''page'')), (js ''property'', JStr (js ''object''))]"
    "prop_of all_pages_search (js ''page_size'') = JNum 100"
    "prop_of all_pages_search (js ''query'') = JUndefined"
    by (simp_all add: all_pages_search_def js_def)
  ultimately show ?thesis by simp
qed

text \<open>
  C6. A \<open>get-all-pages\<close> invocation with no arguments makes one request, a search whose
  body has the filter \<open>{ value: 'page', property: 'object' }\<close>, the page size 100 and no
  \<open>query\<close>. When the response is a success whose payload has an array \<open>results\<close> and a
  boolean \<open>has_more\<close>, the returned text is \<open>Found N pages.\<close> with the length of
  \<open>results\<close> for \<open>N\<close>, then \<open>More pages available.\<close> if \<open>has_more\<close> is true and
  \<open>No more pages available.\<close> otherwise, then an empty line and the serialised payload.
\<close>

theorem get_all_pages_no_arguments:
  "snd (get_all_pages env c None None)
     = [notion_request env c (js ''POST'') (js ''/v1/search'') (Some all_pages_search)]
   \<and> prop_of all_pages_search (js ''filter'')
       = JObj [(js ''value'', JStr (js ''page'')), (js ''property'', JStr (js ''object''))]
   \<and> prop_of all_pages_search (js ''page_size'') = JNum 100
   \<and> prop_of all_pages_search (js ''query'') = JUndefined
   \<and> (\<forall>r results pages has_more.
          fetch env (notion_request env c (js ''POST'') (js ''/v1/search'') (Some all_pages_search))
            = Response r
          \<and> ok r \<and> json r = Inr results
          \<and> prop_of results (js ''results'') = JArr pages
          \<and> prop_of results (js ''has_more'') = JBool has_more
          \<longrightarrow> fst (get_all_pages env c None None) =
                Inr \<lparr>content =
                      [\<lparr>item_type = js ''text'',
                        item_text = js ''Found '' @ String_of env (JNum (of_nat (length pages)))
                                    @ js '' pages. ''
                                    @ (if has_more then js ''More pages available.''
                                       else js ''No more pages available.'')
                                    @ [0x0A, 0x0A] @ JSON_stringify_indent2 env results\<rparr>]\<rparr>)"
proof -
  have "snd (get_all_pages_try env c None None)
        = snd (search env c
                 (JObj [(js ''filter'', JObj [(js ''value'', JStr (js ''page'')),
                                              (js ''property'', JStr (js ''object''))]),
                        (js ''page_size'', JNum 100),
                        (js ''start_cursor'', JUndefined)]))"
    by (auto simp: get_all_pages_try_def optional_def split: prod.splits sum.splits)
  then have "snd (get_all_pages env c None None)
     = [notion_request env c (js ''POST'') (js ''/v1/search'') (Some all_pages_search)]"
    by (simp add: get_all_pages_def snd_try_catch search_def snd_request all_pages_search_def)
  moreover have "prop_of all_pages_search (js ''filter'')
             = JObj [(js ''value'', JStr (js ''page'')), (js ''property'', JStr (js ''object''))]"
    "prop_of all_pages_search (js ''page_size'') = JNum 100"
    "prop_of all_pages_search (js ''query'') = JUndefined"
    by (simp_all add: all_pages_search_def js_def)
  ultimately show ?thesis
    using get_all_pages_success [of env c] by (metis fst_conv)
qed

theorem get_all_pages_no_arguments_witness:
  "fetch (example_env (Response \<lparr>status = 200, ok = True,
             json = Inr (JObj [(js ''object'', JStr (js ''list'')),
                               (js ''results'', JArr [JObj [(js ''object'', JStr (js ''page''))],
                                                      JObj [(js ''object'', JStr (js ''page''))]]),
                               (js ''next_cursor'', JStr (js ''abc'')),
                               (js ''has_more'', JBool True)])\<rparr>))
         (notion_request
            (example_env (Response \<lparr>status = 200, ok = True,
               json = Inr (JObj [(js ''object'', JStr (js ''list'')),
                               (js ''results'', JArr [JObj [(js ''object'', JStr (js ''page''))],
                                                      JObj [(js ''object'', JStr (js ''page''))]]),
                               (js ''next_cursor'', JStr (js ''abc'')),
                               (js ''has_more'', JBool True)])\<rparr>))
            example_client (js ''POST'') (js ''/v1/search'') (Some all_pages_search))
     = Response \<lparr>status = 200, ok = True,
             json = Inr (JObj [(js ''object'', JStr (js ''list'')),
                               (js ''results'', JArr [JObj [(js ''object'', JStr (js ''page''))],
                                                      JObj [(js ''object'', JStr (js ''page''))]]),
                               (js ''next_cursor'', JStr (js ''abc'')),
                               (js ''has_more'', JBool True)])\<rparr>
   \<and> fst (get_all_pages
            (example_env (Response \<lparr>status = 200, ok = True,
               json = Inr (JObj [(js ''object'', JStr (js ''list'')),
                               (js ''results'', JArr [JObj [(js ''object'', JStr (js ''page''))],
                                                      JObj [(js ''object'', JStr (js ''page''))]]),
                               (js ''next_cursor'', JStr (js ''abc'')),
                               (js ''has_more'', JBool True)])\<rparr>))
            example_client None None)
     = Inr \<lparr>content =
             [\<lparr>item_type = js ''text'',
               item_text = js ''Found 2 pages. More pages available.'' @ [0x0A, 0x0A]
                           @ js ''<indented json>''\<rparr>]\<rparr>"
proof -
  let ?results = "JObj [(js ''object'', JStr (js ''list'')),
                               (js ''results'', JArr [JObj [(js ''object'', JStr (js ''page''))],
                                                      JObj [(js ''object'', JStr (js ''page''))]]),
                               (js ''next_cursor'', JStr (js ''abc'')),
                               (js ''has_more'', JBool True)]"
  let ?r = "\<lparr>status = 200, ok = True, json = Inr ?results\<rparr>"
  let ?env = "example_env (Response ?r)"
  let ?req = "notion_request ?env example_client (js ''POST'') (js ''/v1/search'')
                (Some all_pages_search)"
  have f: "fetch ?env ?req = Response ?r" by (simp add: example_env_simps)
  have h: "ok ?r" "json ?r = Inr ?results" by simp_all
  have p: "prop_of ?results (js ''results'')
           = JArr [JObj [(js ''object'', JStr (js ''page''))],
                   JObj [(js ''object'', JStr (js ''page''))]]"
    "prop_of ?results (js ''has_more'') = JBool True"
    by (simp_all add: js_def)
  have "fst (get_all_pages ?env example_client None None) =
          Inr \<lparr>content =
                [\<lparr>item_type = js ''text'',
                  item_text = js ''Found ''
                      @ String_of ?env (JNum (of_nat (length
                          [JObj [(js ''object'', JStr (js ''page''))],
                           JObj [(js ''object'', JStr (js ''page''))]])))
                      @ js '' pages. ''
                      @ (if True then js ''More pages available.''
                         else js ''No more pages available.'')
                      @ [0x0A, 0x0A] @ JSON_stringify_indent2 ?env ?results\<rparr>]\<rparr>"
    using get_all_pages_no_arguments [of ?env example_client] f h p by blast
  then show ?thesis
    using f by (simp add: String_of_def example_env_simps js_def)
qed

text \<open>
  C7. For every block identifier and every content string, \<open>append-block-children\<close> makes
  one request, whose body has exactly one child: a paragraph block whose rich text is the
  single item \<open>{ type: 'text', text: { content } }\<close>.
\<close>

theorem append_block_children_one_paragraph:
  "snd (append_block_children env c blockId ct) =
     [notion_request env c (js ''PATCH'') (js ''/v1/blocks/'' @ blockId @ js ''/children'')
        (Some (JObj [(js ''children'',
                      JArr [JObj [(js ''object'', JStr (js ''block'')),
                                  (js ''type'', JStr (js ''paragraph'')),
                                  (js ''paragraph'',
                                   JObj [(js ''rich_text'',
                                          JArr [JObj [(js ''type'', JStr (js ''text'')),
                                                      (js ''text'',
                                                       JObj [(js ''content'', JStr ct)])]])])]])]))]"
  by (simp add: append_block_children_def append_block_children_try_def snd_try_catch
      snd_return_json appendBlockChildren_def snd_request)

lemma listed_register_step:
  "listed_tools (if_enabled cfg k (server_tool n d) s)
   = listed_tools s @ (if cfg k \<noteq> Some False then [n] else [])"
  by (simp add: listed_tools_def server_tool_def if_enabled_def)

lemma filter_Cons_append: "filter P (x # xs) = (if P x then [x] else []) @ filter P xs"
  by simp

lemma listed_registerNotionTools:
  "listed_tools (registerNotionTools [] cfg) = filter (\<lambda>n. cfg n \<noteq> Some False) tool_names"
proof -
  have "listed_tools (registerNotionTools [] cfg)
        = listed_tools [] @ filter (\<lambda>n. cfg n \<noteq> Some False) tool_names"
    unfolding registerNotionTools_def Let_def tool_names_def
    by (simp only: listed_register_step filter_Cons_append filter.simps(1) append_assoc append_Nil2)
  then show ?thesis by (simp add: listed_tools_def)
qed

text \<open>
  C8. On a server without tools, a tool whose name the configuration maps to \<open>false\<close> is
  not registered and is not listed; a tool whose name is absent from the configuration or
  mapped to \<open>true\<close> is registered and listed.
\<close>

theorem registration_follows_configuration:
  "(cfg n = Some False \<longrightarrow> n \<notin> set (listed_tools (registerNotionTools [] cfg)))
   \<and> (n \<in> set tool_names \<and> cfg n \<noteq> Some False
        \<longrightarrow> n \<in> set (listed_tools (registerNotionTools [] cfg)))"
  by (simp add: listed_registerNotionTools)

theorem registration_follows_configuration_witness:
  "toolConfig (js ''get-database'') = Some False
   \<and> js ''get-database'' \<notin> set (listed_tools (registerNotionTools [] toolConfig))
   \<and> js ''get-page'' \<in> set tool_names \<and> toolConfig (js ''get-page'') \<noteq> Some False
   \<and> js ''get-page'' \<in> set (listed_tools (registerNotionTools [] toolConfig))
   \<and> js ''search'' \<in> set tool_names \<and> Map.empty (js ''search'') \<noteq> Some False
   \<and> js ''search'' \<in> set (listed_tools (registerNotionTools [] Map.empty))"
proof -
  have a: "toolConfig (js ''get-database'') = Some False"
    by (simp add: toolConfig_def js_def)
  have b: "js ''get-page'' \<in> set tool_names \<and> toolConfig (js ''get-page'') \<noteq> Some False"
    by (simp add: toolConfig_def tool_names_def js_def)
  have c: "js ''search'' \<in> set tool_names \<and> Map.empty (js ''search'') \<noteq> Some False"
    by (simp add: tool_names_def)
  show ?thesis
    using a b c
      registration_follows_configuration [of toolConfig "js ''get-database''"]
      registration_follows_configuration [of toolConfig "js ''get-page''"]
      registration_follows_configuration [of Map.empty "js ''search''"]
    by blast
qed

text \<open>
  The tools that the entry point registers with its configuration.
\<close>

lemma main_server_tools:
  "listed_tools main_server =
     [js ''get-current-user'', js ''list-users'', js ''search'', js ''get-page'',
      js ''create-page'', js ''get-block-children'', js ''append-block-children'',
      js ''get-all-pages'']"
  unfolding main_server_def listed_registerNotionTools
  by (simp add: tool_names_def toolConfig_def js_def)

lemma prop_of_set_prop: "prop_of (set_prop (JObj kvs) k v) k = v"
  by (simp add: update_conv')

lemma obj_if:
  "\<exists>kvs. s = JObj kvs \<Longrightarrow> \<exists>kvs. (if b then set_prop s k v else s) = JObj kvs"
  by auto

lemma obj_case:
  "\<exists>kvs. s = JObj kvs \<Longrightarrow>
   \<exists>kvs. (case x of Some a \<Rightarrow> set_prop s k (g a) | None \<Rightarrow> s) = JObj kvs"
  by (cases x) auto

lemma search_params_before_sort:
  "\<exists>kvs. search_params q f None d ps sc = JObj kvs"
  unfolding search_params_def Let_def option.case
  by (intro obj_if obj_case) simp

lemma search_params_sort:
  "search_params q f (Some t) d ps sc =
     set_prop (search_params q f None d ps sc) (js ''sort'')
       (JObj [(js ''timestamp'', JStr (sort_field_str t)),
              (js ''direction'',
               JStr (case d of Some x \<Rightarrow> sort_direction_str x | None \<Rightarrow> js ''descending''))])"
  by (cases d) (simp_all only: search_params_def Let_def option.case)

text \<open>
  C9. When \<open>search\<close> is invoked with a sort field, the \<open>sort\<close> of the request body has the
  direction that was supplied, and \<open>descending\<close> when none was.
\<close>

theorem search_sort_direction_default:
  "prop_of (search_params q f (Some t) d ps sc) (js ''sort'') =
     JObj [(js ''timestamp'', JStr (sort_field_str t)),
           (js ''direction'',
            JStr (case d of Some x \<Rightarrow> sort_direction_str x | None \<Rightarrow> js ''descending''))]
   \<and> snd (search_tool env c q f (Some t) d ps sc) =
       [notion_request env c (js ''POST'') (js ''/v1/search'')
          (Some (search_params q f (Some t) d ps sc))]"
proof -
  obtain kvs where k: "search_params q f None d ps sc = JObj kvs"
    using search_params_before_sort by blast
  have "prop_of (search_params q f (Some t) d ps sc) (js ''sort'') =
     JObj [(js ''timestamp'', JStr (sort_field_str t)),
           (js ''direction'',
            JStr (case d of Some x \<Rightarrow> sort_direction_str x | None \<Rightarrow> js ''descending''))]"
    unfolding search_params_sort k by (rule prop_of_set_prop)
  moreover have "truthy (search_params q f (Some t) d ps sc)"
    unfolding search_params_sort k by simp
  then have "snd (search_tool env c q f (Some t) d ps sc) =
       [notion_request env c (js ''POST'') (js ''/v1/search'')
          (Some (search_params q f (Some t) d ps sc))]"
    by (simp add: search_tool_def search_try_def snd_try_catch snd_return_json search_def
        snd_request)
  ultimately show ?thesis by simp
qed

end
